theory Spec2Isabelle
  imports
    Complex_Main
    "HOL-Library.AList"
    "HOL-Library.Char_ord"
    "HOL-Library.List_Lexorder"
    "HOL-Library.Product_Lexorder"
begin

section \<open>The Magics plotting driver of climetlab\<close>

text \<open>
  A shallow embedding of \<^verbatim>\<open>climetlab/plotting/drivers/magics/__init__.py\<close>.

  Python values are a datatype; a dictionary is an association list with distinct keys in
  insertion order (\<open>AList.update\<close> overwrites in place or appends, as a Python dict does).
  Floats are modelled as exact rationals. Action objects live in a store (a list indexed
  by address), so that "the same instance" and in-place mutation of a shared object are
  visible. An exception is a value of type \<open>error\<close>; the state reached when an exception
  is raised is not kept.
\<close>

subsection \<open>Values, errors, classes\<close>

record BoundingBox =
  north :: rat
  west :: rat
  south :: rat
  east :: rat

datatype pyval =
    VNone
  | VBool bool
  | VInt int
  | VFloat rat
  | VStr string
  | VList "pyval list"
  | VDict "(string \<times> pyval) list"
  | VBBox BoundingBox

type_synonym pydict = "(string \<times> pyval) list"

datatype error =
    AssertionError
  | AttributeError
  | IndexError
  | KeyError
  | TypeError
  | ZeroDivisionError
  | ExternalError
  | CannotSetAndOverride "string list"
  | CannotOverride "string list"
  | NoCurrentDataLayer pyval
  | InvalidReference

text \<open>
  \<open>CannotSetAndOverride\<close>, \<open>CannotOverride\<close> and \<open>NoCurrentDataLayer\<close> are the three
  \<^verbatim>\<open>raise Exception(...)\<close> of the module, with the value their message prints.
  \<open>ExternalError\<close> is an exception raised by an external collaborator.
  \<open>InvalidReference\<close> is not a Python exception: it guards a store address that no object
  occupies, which no state built by the operations below contains.
\<close>

datatype pyclass =
    Action | mcont | mcoast | mmap | FieldAction | mgrib | mnetcdf | minput
  | mtable | mtext | msymb | output_cls
  | macro_mtext

text \<open>
  The classes of the module, and \<open>macro_mtext\<close> for the \<^verbatim>\<open>macro.mtext\<close> object of the
  rendering library, which is not a subclass of \<open>Action\<close>. The class \<^verbatim>\<open>output\<close> is \<open>output_cls\<close>.
\<close>

fun issubclass :: "pyclass \<Rightarrow> pyclass \<Rightarrow> bool" where
  "issubclass c Action = (c \<noteq> macro_mtext)"
| "issubclass c FieldAction = (c \<in> {FieldAction, mgrib, mnetcdf, minput})"
| "issubclass c c' = (c = c')"

definition globals_lookup :: "string \<Rightarrow> pyclass option" where
  "globals_lookup name = map_of
     [(''Action'', Action), (''mcont'', mcont), (''mcoast'', mcoast), (''mmap'', mmap),
      (''FieldAction'', FieldAction), (''mgrib'', mgrib), (''mnetcdf'', mnetcdf),
      (''minput'', minput), (''mtable'', mtable), (''mtext'', mtext), (''msymb'', msymb),
      (''output'', output_cls)] name"

text \<open>
  \<^verbatim>\<open>globals()[name]\<close> is used with the type names of the vocabulary table and of the
  preset store. A name that is not bound raises KeyError; the other bindings of the module
  (imports, \<^verbatim>\<open>LOG\<close>, \<^verbatim>\<open>Layer\<close>, \<^verbatim>\<open>Driver\<close>, ...) are not directive classes and are
  treated like unbound names.
\<close>

subsection \<open>Action objects and the store\<close>

record Action_obj =
  cls :: pyclass
  kwargs :: pydict

datatype logmsg =
    CannotEstablish "string list"
  | CouldBe "string list" string string

record world =
  objects :: "Action_obj list"
  warnings :: "logmsg list"

type_synonym addr = nat

definition default_style_addr :: addr where
  "default_style_addr = 0"

definition initial_world :: world where
  "initial_world =
     \<lparr>objects = [\<lparr>cls = mcont,
                  kwargs = [(''contour_automatic_setting'', VStr ''ecmwf''),
                            (''legend'', VBool False)]\<rparr>],
      warnings = []\<rparr>"

text \<open>
  \<^verbatim>\<open>FieldAction.default_style\<close> is one \<^verbatim>\<open>mcont\<close> object created when the module is
  loaded and shared by every field layer; it is the object at address 0.
\<close>

fun default_style :: "pyclass \<Rightarrow> addr option" where
  "default_style FieldAction = Some default_style_addr"
| "default_style mgrib = Some default_style_addr"
| "default_style mnetcdf = Some default_style_addr"
| "default_style minput = Some default_style_addr"
| "default_style c = None"

definition deref :: "world \<Rightarrow> addr \<Rightarrow> Action_obj option" where
  "deref w a = (if a < length (objects w) then Some (objects w ! a) else None)"

definition new_action :: "world \<Rightarrow> pyclass \<Rightarrow> pydict \<Rightarrow> world \<times> addr" where
  "new_action w c kw =
     (w\<lparr>objects := objects w @ [\<lparr>cls = c, kwargs = kw\<rparr>]\<rparr>, length (objects w))"

definition warning :: "world \<Rightarrow> logmsg \<Rightarrow> world" where
  "warning w m = w\<lparr>warnings := warnings w @ [m]\<rparr>"

subsection \<open>Action.update\<close>

text \<open>
  The loop of \<^verbatim>\<open>Action.update\<close> over \<^verbatim>\<open>values.items()\<close>. \<^verbatim>\<open>k[0]\<close> raises
  IndexError on the empty key.
\<close>

fun update_kwargs :: "pydict \<Rightarrow> pydict \<Rightarrow> error + pydict" where
  "update_kwargs kw [] = Inr kw"
| "update_kwargs kw ((k, v) # rest) =
     (case k of
        [] \<Rightarrow> Inl IndexError
      | c # r \<Rightarrow>
          (let kw1 = (if c = CHR ''+'' then AList.update r v kw else kw);
               kw2 = (if c = CHR ''-'' then AList.delete r kw1 else kw1);
               kw3 = (if c = CHR ''='' then
                        (if map_of kw2 r = None then AList.update r v kw2 else kw2)
                      else kw2)
           in update_kwargs kw3 rest))"

definition Action_update ::
  "world \<Rightarrow> addr \<Rightarrow> pyclass option \<Rightarrow> pydict \<Rightarrow> error + (world \<times> addr option)" where
  "Action_update w self act values =
     (case deref w self of
        None \<Rightarrow> Inl InvalidReference
      | Some obj \<Rightarrow>
          (case act of
             None \<Rightarrow> Inl TypeError
           | Some a \<Rightarrow>
               if issubclass (cls obj) a then
                 (case update_kwargs (kwargs obj) values of
                    Inl e \<Rightarrow> Inl e
                  | Inr kw \<Rightarrow>
                      Inr (w\<lparr>objects := (objects w)[self := obj\<lparr>kwargs := kw\<rparr>]\<rparr>, Some self))
               else Inr (w, None)))"

subsection \<open>mmap.page\_ratio\<close>

text \<open>
  Python's numbers: \<^verbatim>\<open>bool\<close> is a subclass of \<^verbatim>\<open>int\<close>; any other value makes the
  subtraction raise TypeError. \<^verbatim>\<open>/\<close> raises ZeroDivisionError on a zero divisor.
\<close>

fun number :: "pyval \<Rightarrow> rat option" where
  "number (VInt i) = Some (of_int i)"
| "number (VFloat r) = Some r"
| "number (VBool b) = Some (if b then 1 else 0)"
| "number v = None"

definition get_default :: "pydict \<Rightarrow> string \<Rightarrow> pyval \<Rightarrow> pyval" where
  "get_default d k dflt = (case map_of d k of None \<Rightarrow> dflt | Some v \<Rightarrow> v)"

definition page_ratio :: "Action_obj \<Rightarrow> error + rat" where
  "page_ratio self =
     (let south' = get_default (kwargs self) ''subpage_lower_left_latitude'' (VFloat (- 90));
          west' = get_default (kwargs self) ''subpage_lower_left_longitude'' (VInt (- 180));
          north' = get_default (kwargs self) ''subpage_upper_right_latitude'' (VFloat 90);
          east' = get_default (kwargs self) ''subpage_upper_right_longitude'' (VFloat 180)
      in case (number north', number south', number east', number west') of
           (Some n, Some s, Some e, Some w) \<Rightarrow>
             if e - w = 0 then Inl ZeroDivisionError else Inr ((n - s) / (e - w))
         | _ \<Rightarrow> Inl TypeError)"

subsection \<open>External collaborators\<close>

text \<open>
  What the module takes from outside \<^verbatim>\<open>src/\<close> is a parameter:
  the vocabulary table \<^verbatim>\<open>magics.yaml\<close> (type name to parameter names), the preset store
  (\<^verbatim>\<open>get_data_entry(collection, name).data\<close>, or the exception it raises), Python's
  \<^verbatim>\<open>str\<close> on a value that is not a string, the \<^verbatim>\<open>BoundingBox\<close> class (constructor,
  \<^verbatim>\<open>merge\<close>, \<^verbatim>\<open>add_margins\<close>), the path of the n-th temporary file with a given
  extension, and \<^verbatim>\<open>os.path.splitext\<close>.
\<close>

record env =
  magics_yaml :: "(string \<times> string list) list"
  get_data_entry :: "string option \<Rightarrow> string \<Rightarrow> error + pyval"
  str_of :: "pyval \<Rightarrow> string"
  BoundingBox_init :: "pyval \<Rightarrow> pyval \<Rightarrow> pyval \<Rightarrow> pyval \<Rightarrow> error + BoundingBox"
  bbox_merge :: "BoundingBox \<Rightarrow> BoundingBox \<Rightarrow> BoundingBox"
  add_margins :: "BoundingBox \<Rightarrow> pyval \<Rightarrow> error + BoundingBox"
  temp_file :: "nat \<Rightarrow> string \<Rightarrow> string"
  splitext :: "string \<Rightarrow> string \<times> string"

subsection \<open>Layer\<close>

record Layer =
  L_data :: "addr option"
  L_style :: "addr option"

text \<open>\<^verbatim>\<open>Layer(data)\<close>: the style is the default style of the data's class.\<close>

definition Layer_init :: "world \<Rightarrow> addr \<Rightarrow> error + Layer" where
  "Layer_init w d =
     (case deref w d of
        None \<Rightarrow> Inl InvalidReference
      | Some obj \<Rightarrow> Inr \<lparr>L_data = Some d, L_style = default_style (cls obj)\<rparr>)"

definition add_action :: "Layer \<Rightarrow> addr option list \<Rightarrow> addr option list" where
  "add_action self actions =
     (let actions1 = (if L_data self \<noteq> None then actions @ [L_data self] else actions)
      in if L_style self \<noteq> None then actions1 @ [L_style self] else actions1)"

definition Layer_style :: "Layer \<Rightarrow> addr option \<Rightarrow> Layer" where
  "Layer_style self style' = self\<lparr>L_style := style'\<rparr>"

definition Layer_update ::
  "world \<Rightarrow> Layer \<Rightarrow> pyclass option \<Rightarrow> pydict \<Rightarrow> error + (world \<times> addr option)" where
  "Layer_update w self act v =
     (case L_style self of
        None \<Rightarrow> Inl AttributeError
      | Some s \<Rightarrow> Action_update w s act v)"

text \<open>The \<^verbatim>\<open>target\<close> argument of \<^verbatim>\<open>_apply\<close>: None, an Action or a Layer.\<close>

datatype target = NoTarget | ActionTarget addr | LayerTarget Layer

definition target_update ::
  "world \<Rightarrow> target \<Rightarrow> pyclass option \<Rightarrow> pydict \<Rightarrow> error + (world \<times> addr option)" where
  "target_update w tgt act v =
     (case tgt of
        NoTarget \<Rightarrow> Inl AttributeError
      | ActionTarget a \<Rightarrow> Action_update w a act v
      | LayerTarget l \<Rightarrow> Layer_update w l act v)"

subsection \<open>The parameter index and type inference\<close>

definition MAGICS_KEYS :: "env \<Rightarrow> string \<Rightarrow> string list" where
  "MAGICS_KEYS env param =
     remdups (map fst (filter (\<lambda>(name, params). param \<in> set params) (magics_yaml env)))"

text \<open>\<^verbatim>\<open>str.isalpha\<close> on one character, for ASCII keys.\<close>

definition isalpha :: "char \<Rightarrow> bool" where
  "isalpha c = ((CHR ''a'' \<le> c \<and> c \<le> CHR ''z'') \<or> (CHR ''A'' \<le> c \<and> c \<le> CHR ''Z''))"

text \<open>\<^verbatim>\<open>scores[k] += 1\<close> on a \<^verbatim>\<open>defaultdict(int)\<close>.\<close>

definition incr :: "string \<Rightarrow> (string \<times> nat) list \<Rightarrow> (string \<times> nat) list" where
  "incr k scores =
     AList.update k (case map_of scores k of None \<Rightarrow> 1 | Some n \<Rightarrow> n + 1) scores"

fun score_keys ::
  "env \<Rightarrow> string list \<Rightarrow> (string \<times> nat) list \<times> nat \<Rightarrow> error + ((string \<times> nat) list \<times> nat)"
where
  "score_keys env [] (scores, special) = Inr (scores, special)"
| "score_keys env (param # ps) (scores, special) =
     (case param of
        [] \<Rightarrow> Inl IndexError
      | c # r \<Rightarrow>
          (let (special', param') =
                 (if \<not> isalpha c then (special + 1, r) else (special, param));
               acts = MAGICS_KEYS env param';
               scores' = (if length acts = 1 then incr (hd acts) scores else scores)
           in score_keys env ps (scores', special')))"

definition best_of :: "(string \<times> nat) list \<Rightarrow> (nat \<times> string) list" where
  "best_of scores = sort (map (\<lambda>(k, v). (v, k)) scores)"

definition infer_warnings :: "world \<Rightarrow> string list \<Rightarrow> (nat \<times> string) list \<Rightarrow> world" where
  "infer_warnings w keys best =
     (let w1 = (if length best = 0 then warning w (CannotEstablish keys) else w)
      in if length best \<ge> 2 \<and> fst (best ! 0) = fst (best ! 1)
         then warning w1 (CouldBe keys (snd (best ! 0)) (snd (best ! 1)))
         else w1)"

definition infer_action :: "pyclass option \<Rightarrow> (nat \<times> string) list \<Rightarrow> error + pyclass option" where
  "infer_action act best =
     (if length best > 0 then
        (case globals_lookup (snd (best ! 0)) of
           None \<Rightarrow> Inl KeyError
         | Some c \<Rightarrow> Inr (Some c))
      else Inr act)"

subsection \<open>\_apply\<close>

text \<open>
  The flat-dictionary part of \<^verbatim>\<open>_apply\<close> (from "Guess the best action from the keys"
  to \<^verbatim>\<open>return action(**value)\<close>).
\<close>

definition apply_flat ::
  "env \<Rightarrow> world \<Rightarrow> pydict \<Rightarrow> pyclass option \<Rightarrow> target \<Rightarrow> error + (world \<times> addr option)" where
  "apply_flat env w v act tgt =
     (case score_keys env (map fst v) ([], 0) of
        Inl e \<Rightarrow> Inl e
      | Inr (scores, special) \<Rightarrow>
          (let best = best_of scores;
               w1 = infer_warnings w (map fst v) best
           in case infer_action act best of
                Inl e \<Rightarrow> Inl e
              | Inr act' \<Rightarrow>
                  if special \<noteq> 0 then
                    if special \<noteq> length v then Inl (CannotSetAndOverride (map fst v))
                    else
                      (case target_update w1 tgt act' v of
                         Inl e \<Rightarrow> Inl e
                       | Inr (w2, Some r) \<Rightarrow> Inr (w2, Some r)
                       | Inr (w2, None) \<Rightarrow> Inl (CannotOverride (map fst v)))
                  else
                    (case act' of
                       None \<Rightarrow> Inl TypeError
                     | Some c \<Rightarrow> (let (w2, a) = new_action w1 c v in Inr (w2, Some a)))))"

text \<open>The string part of \<^verbatim>\<open>_apply\<close>: a preset name looked up in a collection.\<close>

definition apply_name ::
  "env \<Rightarrow> world \<Rightarrow> string option \<Rightarrow> string \<Rightarrow> error + (world \<times> addr option)" where
  "apply_name env w coll name =
     (case get_data_entry env coll name of
        Inl e \<Rightarrow> Inl e
      | Inr data \<Rightarrow>
          (case data of
             VDict dd \<Rightarrow>
               (case map_of dd ''magics'' of
                  None \<Rightarrow> Inl KeyError
                | Some magics \<Rightarrow>
                    (case magics of
                       VDict m \<Rightarrow>
                         if length m \<noteq> 1 then Inl AssertionError
                         else
                           (case globals_lookup (fst (hd m)) of
                              None \<Rightarrow> Inl KeyError
                            | Some c \<Rightarrow>
                                (case snd (hd m) of
                                   VDict kw \<Rightarrow>
                                     (let (w', a) = new_action w c kw in Inr (w', Some a))
                                 | _ \<Rightarrow> Inl TypeError))
                     | _ \<Rightarrow> Inl AttributeError))
           | _ \<Rightarrow> Inl TypeError))"

text \<open>
  The rewriting of a grouping form: \<^verbatim>\<open>.items()\<close> needs a dictionary, the loop over the
  keys to clear needs an iterable (a list, the keys of a dictionary, the characters of a
  string), and \<^verbatim>\<open>"-{}".format(k)\<close> prints \<^verbatim>\<open>k\<close> with \<^verbatim>\<open>str\<close>.
\<close>

definition items_of :: "pyval \<Rightarrow> error + pydict" where
  "items_of v = (case v of VDict d \<Rightarrow> Inr d | _ \<Rightarrow> Inl AttributeError)"

definition iter_of :: "pyval \<Rightarrow> error + pyval list" where
  "iter_of v =
     (case v of
        VList xs \<Rightarrow> Inr xs
      | VDict d \<Rightarrow> Inr (map (\<lambda>kv. VStr (fst kv)) d)
      | VStr s \<Rightarrow> Inr (map (\<lambda>c. VStr [c]) s)
      | _ \<Rightarrow> Inl TypeError)"

definition format_str :: "env \<Rightarrow> pyval \<Rightarrow> string" where
  "format_str env v = (case v of VStr s \<Rightarrow> s | _ \<Rightarrow> str_of env v)"

definition rewrite :: "env \<Rightarrow> pyval \<Rightarrow> pyval \<Rightarrow> error + pydict" where
  "rewrite env to_set to_clear =
     (case items_of to_set of
        Inl e \<Rightarrow> Inl e
      | Inr its \<Rightarrow>
          (let newvalue = fold (\<lambda>kv nv. AList.update (CHR ''+'' # fst kv) (snd kv) nv) its []
           in case iter_of to_clear of
                Inl e \<Rightarrow> Inl e
              | Inr ks \<Rightarrow>
                  Inr (fold (\<lambda>k nv. AList.update (CHR ''-'' # format_str env k) VNone nv)
                         ks newvalue)))"

text \<open>A size of values that the rewriting decreases.\<close>

fun vsize :: "pyval \<Rightarrow> nat" where
  "vsize (VStr s) = 1 + 2 * length s"
| "vsize (VList xs) = 1 + sum_list (map (\<lambda>x. vsize x + 1) xs)"
| "vsize (VDict d) = 1 + sum_list (map (\<lambda>kv. vsize (snd kv) + 1) d)"
| "vsize v = 1"

definition dsize :: "pydict \<Rightarrow> nat" where
  "dsize d = sum_list (map (\<lambda>kv. vsize (snd kv) + 1) d)"

lemma vsize_pos: "1 \<le> vsize v"
  by (cases v) simp_all

lemma dsize_update: "dsize (AList.update k v d) \<le> dsize d + vsize v + 1"
  by (induction d) (auto simp: dsize_def)

lemma dsize_fold_set:
  "dsize (fold (\<lambda>kv nv. AList.update (CHR ''+'' # fst kv) (snd kv) nv) its acc) \<le> dsize acc + dsize its"
proof (induction its arbitrary: acc)
  case Nil
  then show ?case by (simp add: dsize_def)
next
  case (Cons kv its)
  have "dsize (AList.update (CHR ''+'' # fst kv) (snd kv) acc) \<le> dsize acc + vsize (snd kv) + 1"
    by (rule dsize_update)
  with Cons [of "AList.update (CHR ''+'' # fst kv) (snd kv) acc"] show ?case
    by (simp add: dsize_def)
qed

lemma dsize_fold_clear:
  "dsize (fold (\<lambda>k nv. AList.update (f k) VNone nv) ks acc) \<le> dsize acc + 2 * length ks"
proof (induction ks arbitrary: acc)
  case Nil
  then show ?case by simp
next
  case (Cons k ks)
  have "dsize (AList.update (f k) VNone acc) \<le> dsize acc + vsize VNone + 1"
    by (rule dsize_update)
  with Cons [of "AList.update (f k) VNone acc"] show ?case
    by simp
qed

lemma sum_list_vsize_ge: "2 * length xs \<le> sum_list (map (\<lambda>x. vsize x + 1) xs)"
proof (induction xs)
  case Nil
  then show ?case by simp
next
  case (Cons x xs)
  with vsize_pos [of x] show ?case by simp
qed

lemma iter_of_size: "iter_of v = Inr ks \<Longrightarrow> 2 * length ks + 1 \<le> vsize v"
proof (cases v)
  case (VList xs)
  assume "iter_of v = Inr ks"
  with VList have "ks = xs" by (simp add: iter_of_def)
  with VList sum_list_vsize_ge [of xs] show ?thesis by simp
next
  case (VDict d)
  assume "iter_of v = Inr ks"
  with VDict have "length ks = length d" by (auto simp: iter_of_def)
  with VDict sum_list_vsize_ge [of "map snd d"] show ?thesis by (simp add: comp_def)
qed (auto simp: iter_of_def)

lemma items_of_size: "items_of v = Inr its \<Longrightarrow> dsize its + 1 = vsize v"
  by (cases v) (auto simp: items_of_def dsize_def)

lemma rewrite_size:
  assumes "rewrite env s c = Inr nv"
  shows "vsize (VDict nv) + 1 \<le> vsize s + vsize c"
proof -
  from assms obtain its ks where its: "items_of s = Inr its" and ks: "iter_of c = Inr ks"
    and nv: "nv = fold (\<lambda>k nv. AList.update (CHR ''-'' # format_str env k) VNone nv) ks
                   (fold (\<lambda>kv nv. AList.update (CHR ''+'' # fst kv) (snd kv) nv) its [])"
    by (auto simp: rewrite_def Let_def split: sum.splits)
  have "dsize nv \<le> dsize (fold (\<lambda>kv nv. AList.update (CHR ''+'' # fst kv) (snd kv) nv) its []) + 2 * length ks"
    unfolding nv by (rule dsize_fold_clear)
  also have "\<dots> \<le> (dsize [] + dsize its) + 2 * length ks"
    using dsize_fold_set [of its "[]"] by simp
  finally have "dsize nv \<le> dsize its + 2 * length ks" by (simp add: dsize_def)
  with items_of_size [OF its] iter_of_size [OF ks] show ?thesis
    by (simp add: dsize_def)
qed

lemma dsize_two_keys:
  "k1 \<noteq> k2 \<Longrightarrow>
   (case map_of d k1 of None \<Rightarrow> 0 | Some v \<Rightarrow> vsize v + 1) +
   (case map_of d k2 of None \<Rightarrow> 0 | Some v \<Rightarrow> vsize v + 1) \<le> dsize d"
  by (induction d) (auto simp: dsize_def split: option.splits)

lemma grouping_size:
  assumes "k1 \<noteq> k2" and "map_of d k1 \<noteq> None \<or> map_of d k2 \<noteq> None"
  shows "vsize (get_default d k1 (VDict [])) + vsize (get_default d k2 (VList [])) + 1 \<le> vsize (VDict d)"
  using dsize_two_keys [OF assms(1), of d] assms(2)
  by (auto simp: get_default_def dsize_def split: option.splits)

text \<open>
  \<^verbatim>\<open>_apply\<close> itself, named \<open>apply'\<close>. The arguments are \<^verbatim>\<open>value\<close>, \<^verbatim>\<open>collection\<close>,
  \<^verbatim>\<open>action\<close>, \<^verbatim>\<open>default\<close> and \<^verbatim>\<open>target\<close>; the result is the store and the address
  of the returned Action, or None.
\<close>

function (sequential) apply' ::
  "env \<Rightarrow> world \<Rightarrow> pyval \<Rightarrow> string option \<Rightarrow> pyclass option \<Rightarrow> pyval \<Rightarrow> target
     \<Rightarrow> error + (world \<times> addr option)" where
  "apply' env w VNone coll act dflt tgt = Inr (w, None)"
| "apply' env w (VBool b) coll act dflt tgt =
     (if \<not> b then Inr (w, None)
      else if dflt = VBool True then Inl AssertionError
      else apply' env w dflt coll act VNone tgt)"
| "apply' env w (VDict d) coll act dflt tgt =
     (if map_of d ''set'' \<noteq> None \<or> map_of d ''clear'' \<noteq> None then
        (case rewrite env (get_default d ''set'' (VDict [])) (get_default d ''clear'' (VList [])) of
           Inl e \<Rightarrow> Inl e
         | Inr newvalue \<Rightarrow> apply' env w (VDict newvalue) coll act dflt tgt)
      else if map_of d ''+'' \<noteq> None \<or> map_of d ''-'' \<noteq> None then
        (case rewrite env (get_default d ''+'' (VDict [])) (get_default d ''-'' (VList [])) of
           Inl e \<Rightarrow> Inl e
         | Inr newvalue \<Rightarrow> apply' env w (VDict newvalue) coll act dflt tgt)
      else apply_flat env w d act tgt)"
| "apply' env w (VStr s) coll act dflt tgt = apply_name env w coll s"
| "apply' env w v coll act dflt tgt = Inl AssertionError"
  by pat_completeness auto
termination
proof (relation "measures [\<lambda>(env, w, v, coll, act, dflt, tgt). if v = VBool True then 1 else 0,
                           \<lambda>(env, w, v, coll, act, dflt, tgt). vsize v]", goal_cases)
  case 1
  then show ?case by simp
next
  case (2 env w b coll act dflt tgt)
  then show ?case by simp
next
  case (3 env w d coll act dflt tgt x2)
  from rewrite_size [OF 3(2)] grouping_size [of "''set''" "''clear''" d] 3(1)
  show ?case by simp
next
  case (4 env w d coll act dflt tgt x2)
  from rewrite_size [OF 4(3)] grouping_size [of "''+''" "''-''" d] 4(2)
  show ?case by simp
qed


subsection \<open>Driver\<close>

text \<open>
  Modelled from the spec: the options collaborator, whose class is not in the source. It is
  "queried via \<^verbatim>\<open>options(name, default)\<close> and \<^verbatim>\<open>options.provided(name)\<close>"; the driver
  also reads \<^verbatim>\<open>options[name]\<close>. It is a dictionary of the options the caller gave; which
  options were consulted (\<^verbatim>\<open>check_unused\<close>) is not recorded.
\<close>

definition provided :: "pydict \<Rightarrow> string \<Rightarrow> bool" where
  "provided options name = (map_of options name \<noteq> None)"

definition option_item :: "pydict \<Rightarrow> string \<Rightarrow> error + pyval" where
  "option_item options name =
     (case map_of options name of None \<Rightarrow> Inl KeyError | Some v \<Rightarrow> Inr v)"

definition option_call :: "pydict \<Rightarrow> string \<Rightarrow> pyval \<Rightarrow> pyval" where
  "option_call options name dflt = get_default options name dflt"

record Driver =
  D_options :: pydict
  D_projection :: "addr option"
  D_background :: "addr option"
  D_foreground :: "addr option"
  D_layers :: "Layer list"
  D_width_cm :: rat
  D_height_cm :: rat
  D_page_ratio :: rat
  D_grid :: "addr option"
  D_rivers :: "addr option"
  D_cities :: "addr option"
  D_borders :: "addr option"
  D_legend :: "addr option"
  D_title :: "addr option"
  D_bounding_box :: "BoundingBox option"
  D_tmp :: "string list"

definition target_of :: "addr option \<Rightarrow> target" where
  "target_of r = (case r of None \<Rightarrow> NoTarget | Some a \<Rightarrow> ActionTarget a)"

definition background :: "env \<Rightarrow> world \<Rightarrow> Driver \<Rightarrow> pyval \<Rightarrow> error + (world \<times> Driver)" where
  "background env w self v =
     (case apply' env w v (Some ''layers'') None (VStr ''default-background'')
             (target_of (D_background self)) of
        Inl e \<Rightarrow> Inl e
      | Inr (w', r) \<Rightarrow> Inr (w', self\<lparr>D_background := r\<rparr>))"

definition foreground :: "env \<Rightarrow> world \<Rightarrow> Driver \<Rightarrow> pyval \<Rightarrow> error + (world \<times> Driver)" where
  "foreground env w self v =
     (case apply' env w v (Some ''layers'') None (VStr ''default-foreground'')
             (target_of (D_foreground self)) of
        Inl e \<Rightarrow> Inl e
      | Inr (w', r) \<Rightarrow> Inr (w', self\<lparr>D_foreground := r\<rparr>))"

definition projection :: "env \<Rightarrow> world \<Rightarrow> Driver \<Rightarrow> pyval \<Rightarrow> error + (world \<times> Driver)" where
  "projection env w self v =
     (case apply' env w v (Some ''projections'') None (VBool True)
             (target_of (D_projection self)) of
        Inl e \<Rightarrow> Inl e
      | Inr (w', r) \<Rightarrow> Inr (w', self\<lparr>D_projection := r\<rparr>))"

definition Driver_init :: "env \<Rightarrow> world \<Rightarrow> pydict \<Rightarrow> error + (world \<times> Driver)" where
  "Driver_init env w options =
     (let self0 = \<lparr>D_options = options, D_projection = None, D_background = None,
                   D_foreground = None, D_layers = [], D_width_cm = 10, D_height_cm = 10,
                   D_page_ratio = 1, D_grid = None, D_rivers = None, D_cities = None,
                   D_borders = None, D_legend = None, D_title = None,
                   D_bounding_box = None, D_tmp = []\<rparr>
      in case background env w self0 (VBool True) of
           Inl e \<Rightarrow> Inl e
         | Inr (w1, self1) \<Rightarrow>
             (case foreground env w1 self1 (VBool True) of
                Inl e \<Rightarrow> Inl e
              | Inr (w2, self2) \<Rightarrow>
                  Inr (w2, self2\<lparr>D_grid := None, D_rivers := None, D_cities := None,
                                 D_borders := None, D_legend := None, D_title := None,
                                 D_bounding_box := None, D_tmp := []\<rparr>)))"

definition temporary_file :: "env \<Rightarrow> Driver \<Rightarrow> string \<Rightarrow> Driver \<times> string" where
  "temporary_file env self extension =
     (let path = temp_file env (length (D_tmp self)) extension
      in (self\<lparr>D_tmp := D_tmp self @ [path]\<rparr>, path))"

definition bounding_box ::
  "env \<Rightarrow> Driver \<Rightarrow> pyval \<Rightarrow> pyval \<Rightarrow> pyval \<Rightarrow> pyval \<Rightarrow> error + Driver" where
  "bounding_box env self north' west' south' east' =
     (case BoundingBox_init env north' west' south' east' of
        Inl e \<Rightarrow> Inl e
      | Inr bbox \<Rightarrow>
          (case D_bounding_box self of
             None \<Rightarrow> Inr (self\<lparr>D_bounding_box := Some bbox\<rparr>)
           | Some b \<Rightarrow> Inr (self\<lparr>D_bounding_box := Some (bbox_merge env b bbox)\<rparr>)))"

definition push_layer :: "world \<Rightarrow> Driver \<Rightarrow> addr \<Rightarrow> error + Driver" where
  "push_layer w self d =
     (case Layer_init w d of
        Inl e \<Rightarrow> Inl e
      | Inr l \<Rightarrow> Inr (self\<lparr>D_layers := D_layers self @ [l]\<rparr>))"

definition style :: "env \<Rightarrow> world \<Rightarrow> Driver \<Rightarrow> pyval \<Rightarrow> error + (world \<times> Driver)" where
  "style env w self v =
     (if length (D_layers self) > 0 then
        (let last_layer = last (D_layers self)
         in case apply' env w v (Some ''styles'') None (VBool True) (LayerTarget last_layer) of
              Inl e \<Rightarrow> Inl e
            | Inr (w', r) \<Rightarrow>
                Inr (w', self\<lparr>D_layers := butlast (D_layers self) @ [Layer_style last_layer r]\<rparr>))
      else Inl (NoCurrentDataLayer v))"

definition plot_grib :: "env \<Rightarrow> world \<Rightarrow> Driver \<Rightarrow> string \<Rightarrow> int \<Rightarrow> error + (world \<times> Driver)" where
  "plot_grib env w self path offset =
     (let (w1, a) = new_action w mgrib
                      [(''grib_input_file_name'', VStr path),
                       (''grib_file_address_mode'', VStr ''byte_offset''),
                       (''grib_field_position'', VInt offset)]
      in case push_layer w1 self a of
           Inl e \<Rightarrow> Inl e
         | Inr self1 \<Rightarrow> Inr (w1, self1))"


definition apply_options :: "env \<Rightarrow> world \<Rightarrow> Driver \<Rightarrow> pydict \<Rightarrow> error + (world \<times> Driver)" where
  "apply_options env w self options =
     (case (if provided options ''style'' then
              (case option_item options ''style'' of
                 Inl e \<Rightarrow> Inl e
               | Inr v \<Rightarrow> style env w self v)
            else Inr (w, self)) of
        Inl e \<Rightarrow> Inl e
      | Inr (w1, self1) \<Rightarrow>
          if provided options ''bounding_box'' then
            (case option_item options ''bounding_box'' of
               Inl e \<Rightarrow> Inl e
             | Inr bbox \<Rightarrow>
                 (case (case bbox of
                          VList xs \<Rightarrow>
                            if length xs < 4 then Inl IndexError
                            else bounding_box env self1 (xs ! 0) (xs ! 1) (xs ! 2) (xs ! 3)
                        | VBBox b \<Rightarrow>
                            bounding_box env self1 (VFloat (north b)) (VFloat (west b))
                              (VFloat (south b)) (VFloat (east b))
                        | _ \<Rightarrow> Inl AttributeError) of
                    Inl e \<Rightarrow> Inl e
                  | Inr self2 \<Rightarrow> Inr (w1, self2)))
          else Inr (w1, self1))"

definition macro :: "Driver \<Rightarrow> addr list" where
  "macro self =
     (let m = [D_projection self, D_background self];
          m1 = fold add_action (D_layers self) m;
          m2 = m1 @ [D_rivers self, D_borders self, D_cities self, D_foreground self,
                     D_grid self, D_legend self, D_title self]
      in map the (filter (\<lambda>x. x \<noteq> None) m2))"

subsection \<open>Driver.show\<close>

text \<open>
  \<^verbatim>\<open>Driver.show\<close> (\<open>Driver_show\<close>) up to the list \<^verbatim>\<open>args\<close> handed to the renderer, in the order of the source:
  the options, the decorations, the output path, the projection and the page ratio, the
  title, the page. The call of the renderer and the display wrapper are external and not
  modelled.
\<close>

fun truthy :: "pyval \<Rightarrow> bool" where
  "truthy VNone = False"
| "truthy (VBool b) = b"
| "truthy (VInt i) = (i \<noteq> 0)"
| "truthy (VFloat r) = (r \<noteq> 0)"
| "truthy (VStr s) = (s \<noteq> [])"
| "truthy (VList xs) = (xs \<noteq> [])"
| "truthy (VDict d) = (d \<noteq> [])"
| "truthy (VBBox b) = True"

text \<open>\<^verbatim>\<open>if self._options.provided(name): self.f(self._options[name])\<close>\<close>

definition when_provided ::
  "string \<Rightarrow> (world \<Rightarrow> Driver \<Rightarrow> pyval \<Rightarrow> error + (world \<times> Driver)) \<Rightarrow> world \<Rightarrow> Driver
     \<Rightarrow> error + (world \<times> Driver)" where
  "when_provided name f w self =
     (if provided (D_options self) name then
        (case option_item (D_options self) name of
           Inl e \<Rightarrow> Inl e
         | Inr v \<Rightarrow> f w self v)
      else Inr (w, self))"

definition show_options :: "env \<Rightarrow> world \<Rightarrow> Driver \<Rightarrow> error + (world \<times> Driver)" where
  "show_options env w self =
     (case apply_options env w self (D_options self) of
        Inl e \<Rightarrow> Inl e
      | Inr (w1, s1) \<Rightarrow>
          (case when_provided ''background'' (background env) w1 s1 of
             Inl e \<Rightarrow> Inl e
           | Inr (w2, s2) \<Rightarrow>
               (case when_provided ''foreground'' (foreground env) w2 s2 of
                  Inl e \<Rightarrow> Inl e
                | Inr (w3, s3) \<Rightarrow> when_provided ''projection'' (projection env) w3 s3)))"

definition show_decorations :: "world \<Rightarrow> Driver \<Rightarrow> world \<times> Driver" where
  "show_decorations w self =
     (let opts = D_options self;
          (w1, s1) =
            (if truthy (option_call opts ''grid'' (VBool False)) then
               (let (w', a) = new_action w mcoast
                                [(''map_grid'', VBool True), (''map_coastline'', VBool False)]
                in (w', self\<lparr>D_grid := Some a\<rparr>))
             else (w, self));
          (w2, s2) =
            (if truthy (option_call opts ''borders'' (VBool False)) then
               (let (w', a) = new_action w1 mcoast
                                [(''map_boundaries'', VBool True), (''map_grid'', VBool False),
                                 (''map_coastline'', VBool False), (''map_label'', VBool False)]
                in (w', s1\<lparr>D_borders := Some a\<rparr>))
             else (w1, s1));
          (w3, s3) =
            (if truthy (option_call opts ''rivers'' (VBool False)) then
               (let (w', a) = new_action w2 mcoast
                                [(''map_rivers'', VBool True), (''map_grid'', VBool False),
                                 (''map_coastline'', VBool False), (''map_label'', VBool False)]
                in (w', s2\<lparr>D_rivers := Some a\<rparr>))
             else (w2, s2))
      in if truthy (option_call opts ''cities'' (VBool False)) then
           (let (w', a) = new_action w3 mcoast
                            [(''map_cities'', VBool True), (''map_label'', VBool False),
                             (''map_grid'', VBool False), (''map_coastline'', VBool False)]
            in (w', s3\<lparr>D_cities := Some a\<rparr>))
         else (w3, s3))"

text \<open>
  \<^verbatim>\<open>path = self._options("path", self.temporary_file("." + self._options("format", "png")))\<close>:
  the temporary file is created whether or not a path is given.
\<close>

definition show_path :: "env \<Rightarrow> Driver \<Rightarrow> error + (Driver \<times> pyval)" where
  "show_path env self =
     (case option_call (D_options self) ''format'' (VStr ''png'') of
        VStr fmt \<Rightarrow>
          (let (s1, tmp) = temporary_file env self (''.'' @ fmt)
           in Inr (s1, option_call (D_options self) ''path'' (VStr tmp)))
      | _ \<Rightarrow> Inl TypeError)"

text \<open>
  The default projection (\<^verbatim>\<open>if self._projection is None\<close>), the bounding box patched
  into the projection (\<^verbatim>\<open>if self._bounding_box is not None\<close>), and the page ratio.
  \<^verbatim>\<open>page_ratio\<close> is a method of \<^verbatim>\<open>mmap\<close> only.
\<close>

definition show_default_projection :: "world \<Rightarrow> Driver \<Rightarrow> world \<times> Driver" where
  "show_default_projection w self =
     (if D_projection self = None then
        (let (w', a) = new_action w mmap [(''subpage_map_projection'', VStr ''cylindrical'')]
         in (w', self\<lparr>D_projection := Some a\<rparr>))
      else (w, self))"

definition show_bounding_box :: "env \<Rightarrow> world \<Rightarrow> Driver \<Rightarrow> error + (world \<times> Driver)" where
  "show_bounding_box env w self =
     (case D_bounding_box self of
        None \<Rightarrow> Inr (w, self)
      | Some bb \<Rightarrow>
          (case add_margins env bb (option_call (D_options self) ''margins'' (VInt 0)) of
             Inl e \<Rightarrow> Inl e
           | Inr bbox \<Rightarrow>
               (case apply' env w
                       (VDict [(''=subpage_upper_right_longitude'', VFloat (east bbox)),
                               (''=subpage_upper_right_latitude'', VFloat (north bbox)),
                               (''=subpage_lower_left_latitude'', VFloat (south bbox)),
                               (''=subpage_lower_left_longitude'', VFloat (west bbox))])
                       None (Some mmap) (VBool True) (target_of (D_projection self)) of
                  Inl e \<Rightarrow> Inl e
                | Inr (w', r) \<Rightarrow> Inr (w', self\<lparr>D_projection := r\<rparr>))))"

definition show_page_ratio :: "world \<Rightarrow> Driver \<Rightarrow> error + Driver" where
  "show_page_ratio w self =
     (case D_projection self of
        None \<Rightarrow> Inl AttributeError
      | Some pa \<Rightarrow>
          (case deref w pa of
             None \<Rightarrow> Inl InvalidReference
           | Some obj \<Rightarrow>
               if cls obj \<noteq> mmap then Inl AttributeError
               else
                 (case page_ratio obj of
                    Inl e \<Rightarrow> Inl e
                  | Inr r \<Rightarrow> Inr (self\<lparr>D_page_ratio := r\<rparr>))))"

definition show_title :: "env \<Rightarrow> world \<Rightarrow> Driver \<Rightarrow> pyval \<Rightarrow> world \<times> Driver \<times> rat" where
  "show_title env w self title =
     (if truthy title then
        (if title = VBool True then
           (let (w', a) = new_action w macro_mtext [] in (w', self\<lparr>D_title := Some a\<rparr>, 7 / 10))
         else
           (let (w', a) = new_action w macro_mtext
                            [(''text_lines'', VList [VStr (format_str env title)])]
            in (w', self\<lparr>D_title := Some a\<rparr>, 7 / 10)))
      else (w, self, 0))"

definition show_page ::
  "env \<Rightarrow> world \<Rightarrow> Driver \<Rightarrow> pyval \<Rightarrow> pyval \<Rightarrow> pyval \<Rightarrow> rat \<Rightarrow> error + (world \<times> addr)" where
  "show_page env w self path width frame title_height_cm =
     (case path of
        VStr p \<Rightarrow>
          (let (base, fmt) = splitext env p
           in Inr (new_action w output_cls
                [(''output_formats'', VList [VStr (drop 1 fmt)]),
                 (''output_name_first_page_number'', VBool False),
                 (''page_x_length'', VFloat (D_width_cm self)),
                 (''page_y_length'', VFloat (D_height_cm self * D_page_ratio self)),
                 (''super_page_x_length'', VFloat (D_width_cm self)),
                 (''super_page_y_length'',
                    VFloat (D_height_cm self * D_page_ratio self + title_height_cm)),
                 (''subpage_x_length'', VFloat (D_width_cm self)),
                 (''subpage_y_length'', VFloat (D_height_cm self * D_page_ratio self)),
                 (''subpage_x_position'', VFloat 0),
                 (''subpage_y_position'', VFloat 0),
                 (''output_width'', width),
                 (''page_frame'', frame),
                 (''page_id_line'', VBool False),
                 (''output_name'', VStr base)]))
      | _ \<Rightarrow> Inl TypeError)"

definition Driver_show :: "env \<Rightarrow> world \<Rightarrow> Driver \<Rightarrow> error + (world \<times> Driver \<times> addr list)" where
  "Driver_show env w self =
     (case show_options env w self of
        Inl e \<Rightarrow> Inl e
      | Inr (w1, s1) \<Rightarrow>
          (let (w2, s2) = show_decorations w1 s1;
               title = option_call (D_options s2) ''title'' VNone;
               width = option_call (D_options s2) ''width'' (VInt 680);
               frame = option_call (D_options s2) ''frame'' (VBool False)
           in case show_path env s2 of
                Inl e \<Rightarrow> Inl e
              | Inr (s3, path) \<Rightarrow>
                  (let (w3, s4) = show_default_projection w2 s3
                   in case show_bounding_box env w3 s4 of
                        Inl e \<Rightarrow> Inl e
                      | Inr (w4, s5) \<Rightarrow>
                          (case show_page_ratio w4 s5 of
                             Inl e \<Rightarrow> Inl e
                           | Inr s6 \<Rightarrow>
                               (let (w5, s7, title_height_cm) = show_title env w4 s6 title
                                in case show_page env w5 s7 path width frame title_height_cm of
                                     Inl e \<Rightarrow> Inl e
                                   | Inr (w6, page) \<Rightarrow> Inr (w6, s7, page # macro s7))))))"

subsection \<open>The operations of a patch, as the specification words them\<close>

text \<open>
  "\<^verbatim>\<open>add(key,value)\<close> unconditionally sets/overwrites, \<^verbatim>\<open>remove(key)\<close> deletes if present,
  \<^verbatim>\<open>setIfAbsent(key,value)\<close> sets only when key is not already present". A key whose first
  character is \<^verbatim>\<open>+\<close>, \<^verbatim>\<open>-\<close> or \<^verbatim>\<open>=\<close> is one such operation on the rest of the key; any
  other key is no operation.
\<close>

datatype operation = Add_op string pyval | Remove_op string | SetIfAbsent_op string pyval

fun apply_operation :: "operation \<Rightarrow> (string \<rightharpoonup> pyval) \<Rightarrow> (string \<rightharpoonup> pyval)" where
  "apply_operation (Add_op k v) m = m(k \<mapsto> v)"
| "apply_operation (Remove_op k) m = m(k := None)"
| "apply_operation (SetIfAbsent_op k v) m = (if m k = None then m(k \<mapsto> v) else m)"

fun operations_of :: "pydict \<Rightarrow> operation list" where
  "operations_of [] = []"
| "operations_of ((k, v) # rest) =
     (if k \<noteq> [] \<and> hd k = CHR ''+'' then Add_op (tl k) v # operations_of rest
      else if k \<noteq> [] \<and> hd k = CHR ''-'' then Remove_op (tl k) # operations_of rest
      else if k \<noteq> [] \<and> hd k = CHR ''='' then SetIfAbsent_op (tl k) v # operations_of rest
      else operations_of rest)"

subsection \<open>An example environment\<close>

text \<open>
  One instance of the external collaborators, for evaluating the driver on concrete inputs:
  a small vocabulary table, a preset store with the three default presets, a bounding box
  that is the union of extents and grows by its margin on each side, and a
  \<^verbatim>\<open>splitext\<close> that splits at the last dot.
\<close>

definition example_magics :: "(string \<times> string list) list" where
  "example_magics =
     [(''mmap'', [''subpage_map_projection'', ''subpage_upper_right_longitude'',
                  ''subpage_upper_right_latitude'', ''subpage_lower_left_latitude'',
                  ''subpage_lower_left_longitude'']),
      (''mcont'', [''contour_automatic_setting'', ''contour_line_colour'', ''legend'']),
      (''mcoast'', [''map_grid'', ''map_coastline'', ''map_label'', ''map_coastline_colour'']),
      (''msymb'', [''symbol_type'', ''symbol_colour'', ''legend''])]"

definition example_presets :: "string option \<Rightarrow> string \<Rightarrow> error + pyval" where
  "example_presets coll name =
     (if coll = Some ''layers'' \<and> name = ''default-background'' then
        Inr (VDict [(''magics'', VDict [(''mcoast'',
               VDict [(''map_grid'', VBool False), (''map_label'', VBool False)])])])
      else if coll = Some ''layers'' \<and> name = ''default-foreground'' then
        Inr (VDict [(''magics'', VDict [(''mcoast'',
               VDict [(''map_grid'', VBool False), (''map_coastline_colour'', VStr ''black'')])])])
      else if coll = Some ''styles'' \<and> name = ''default-style-observations'' then
        Inr (VDict [(''magics'', VDict [(''msymb'',
               VDict [(''symbol_type'', VStr ''marker'')])])])
      else Inl ExternalError)"

definition example_bbox :: "pyval \<Rightarrow> pyval \<Rightarrow> pyval \<Rightarrow> pyval \<Rightarrow> error + BoundingBox" where
  "example_bbox n w s e =
     (case (number n, number w, number s, number e) of
        (Some n', Some w', Some s', Some e') \<Rightarrow>
          Inr \<lparr>north = n', west = w', south = s', east = e'\<rparr>
      | _ \<Rightarrow> Inl ExternalError)"

definition example_merge :: "BoundingBox \<Rightarrow> BoundingBox \<Rightarrow> BoundingBox" where
  "example_merge a b =
     \<lparr>north = max (north a) (north b), west = min (west a) (west b),
      south = min (south a) (south b), east = max (east a) (east b)\<rparr>"

definition example_margins :: "BoundingBox \<Rightarrow> pyval \<Rightarrow> error + BoundingBox" where
  "example_margins b m =
     (case number m of
        None \<Rightarrow> Inl ExternalError
      | Some x \<Rightarrow>
          Inr \<lparr>north = north b + x, west = west b - x, south = south b - x, east = east b + x\<rparr>)"

definition example_splitext :: "string \<Rightarrow> string \<times> string" where
  "example_splitext p =
     (let ext = rev (takeWhile (\<lambda>c. c \<noteq> CHR ''.'') (rev p))
      in if length ext < length p then (take (length p - length ext - 1) p, CHR ''.'' # ext)
         else (p, []))"

definition example_env :: env where
  "example_env =
     \<lparr>magics_yaml = example_magics,
      get_data_entry = example_presets,
      str_of = (\<lambda>v. ''<object>''),
      BoundingBox_init = example_bbox,
      bbox_merge = example_merge,
      add_margins = example_margins,
      temp_file = (\<lambda>n ext. ''/tmp/climetlab-'' @ replicate n (CHR ''x'') @ ext),
      splitext = example_splitext\<rparr>"

subsection \<open>The assembly order, as the specification words it\<close>

text \<open>
  "projection, background, then for each layer in insertion order its [data, style] pair,
  then rivers, borders, cities, foreground, grid, legend, title. Entries that are null are
  omitted; no other reordering occurs."
\<close>

definition present :: "addr option list \<Rightarrow> addr list" where
  "present xs = concat (map (\<lambda>x. case x of None \<Rightarrow> [] | Some a \<Rightarrow> [a]) xs)"

definition assembly_order :: "Driver \<Rightarrow> addr list" where
  "assembly_order d =
     present [D_projection d, D_background d] @
     concat (map (\<lambda>l. present [L_data l, L_style l]) (D_layers d)) @
     present [D_rivers d, D_borders d, D_cities d, D_foreground d, D_grid d, D_legend d,
              D_title d]"

subsection \<open>The state a constructor leaves\<close>

text \<open>
  The fields of a Driver after \<^verbatim>\<open>__init__\<close>, for given contents of the background and
  foreground slots.
\<close>

definition fresh_driver :: "pydict \<Rightarrow> addr option \<Rightarrow> addr option \<Rightarrow> Driver" where
  "fresh_driver options b f =
     \<lparr>D_options = options, D_projection = None, D_background = b,
      D_foreground = f, D_layers = [], D_width_cm = 10, D_height_cm = 10,
      D_page_ratio = 1, D_grid = None, D_rivers = None, D_cities = None,
      D_borders = None, D_legend = None, D_title = None,
      D_bounding_box = None, D_tmp = []\<rparr>"

subsection \<open>The two grouping forms\<close>

text \<open>
  The \<^verbatim>\<open>+\<close>/\<^verbatim>\<open>-\<close> form of a dictionary in \<^verbatim>\<open>set\<close>/\<^verbatim>\<open>clear\<close> form: the same
  dictionary with the two grouping keys renamed. \<open>rewritten\<close> is the flat dictionary the
  specification describes for entries \<open>its\<close> to set and keys \<open>ks\<close> to clear: "set entries
  become add-prefixed, clear entries become remove-prefixed", the latter with value None.
\<close>

definition plus_minus_form :: "pydict \<Rightarrow> pydict" where
  "plus_minus_form d =
     map (\<lambda>kv. (if fst kv = ''set'' then ''+'' else if fst kv = ''clear'' then ''-'' else fst kv,
                snd kv)) d"

definition rewritten :: "pydict \<Rightarrow> string list \<Rightarrow> string \<Rightarrow> pyval option" where
  "rewritten its ks k =
     (if k \<in> (\<lambda>x. CHR ''-'' # x) ` set ks then Some VNone
      else case k of [] \<Rightarrow> None | c # r \<Rightarrow> if c = CHR ''+'' then map_of its r else None)"

subsection \<open>Type inference, as the specification words it\<close>

text \<open>
  The name looked up for a key is the key itself when it is unprefixed (its first character
  is a letter) and the key without its first character otherwise. The score of a type is
  the number of keys whose name the parameter index maps to exactly that one type.
  \<open>special_of\<close> counts the keys that are not unprefixed. A flat dictionary has no grouping
  key.
\<close>

definition param_name :: "string \<Rightarrow> string" where
  "param_name k = (case k of [] \<Rightarrow> [] | c # r \<Rightarrow> if isalpha c then k else r)"

definition score_of :: "env \<Rightarrow> string list \<Rightarrow> string \<Rightarrow> nat" where
  "score_of env keys t = length (filter (\<lambda>k. MAGICS_KEYS env (param_name k) = [t]) keys)"

definition special_of :: "string list \<Rightarrow> nat" where
  "special_of keys = length (filter (\<lambda>k. \<not> isalpha (hd k)) keys)"

definition flat_dict :: "pydict \<Rightarrow> bool" where
  "flat_dict d =
     (map_of d ''set'' = None \<and> map_of d ''clear'' = None \<and>
      map_of d ''+'' = None \<and> map_of d ''-'' = None)"

subsection \<open>Kinds of keys\<close>


definition unprefixed :: "string \<Rightarrow> bool" where
  "unprefixed k = (k \<noteq> [] \<and> isalpha (hd k))"

text \<open>
  The score of a type counted over the unprefixed keys only: the number of unprefixed keys
  that the parameter index maps to exactly that one type.
\<close>

definition unprefixed_score :: "env \<Rightarrow> string list \<Rightarrow> string \<Rightarrow> nat" where
  "unprefixed_score env keys t =
     length (filter (\<lambda>k. unprefixed k \<and> MAGICS_KEYS env k = [t]) keys)"


subsection \<open>The bounding box in the projection\<close>

text \<open>
  The four extent parameters of a projection and the set-if-absent operations that fill
  them from a bounding box. \<open>extents_of_mmap\<close>: the vocabulary table gives none of the four
  parameters to a single type other than \<^verbatim>\<open>mmap\<close>.
\<close>

definition extent_params :: "string list" where
  "extent_params =
     [''subpage_upper_right_longitude'', ''subpage_upper_right_latitude'',
      ''subpage_lower_left_latitude'', ''subpage_lower_left_longitude'']"

definition extent_operations :: "BoundingBox \<Rightarrow> operation list" where
  "extent_operations bbox =
     [SetIfAbsent_op ''subpage_upper_right_longitude'' (VFloat (east bbox)),
      SetIfAbsent_op ''subpage_upper_right_latitude'' (VFloat (north bbox)),
      SetIfAbsent_op ''subpage_lower_left_latitude'' (VFloat (south bbox)),
      SetIfAbsent_op ''subpage_lower_left_longitude'' (VFloat (west bbox))]"

definition extents_of_mmap :: "env \<Rightarrow> bool" where
  "extents_of_mmap env =
     (\<forall>x \<in> set extent_params. length (MAGICS_KEYS env x) = 1 \<longrightarrow> MAGICS_KEYS env x = [''mmap''])"

text \<open>
  States of a driver in the example environment: after the constructor
  (\<open>started\<close>), after \<^verbatim>\<open>projection\<close> with a full-world extent (\<open>projected\<close>), after
  \<^verbatim>\<open>bounding_box(20, -10, -20, 10)\<close> (\<open>boxed\<close>); and a driver whose projection has one
  extent parameter only, with a bounding box and a margin (\<open>partial\<close>).
\<close>

definition world_projection :: pydict where
  "world_projection =
     [(''subpage_map_projection'', VStr ''cylindrical''),
      (''subpage_upper_right_longitude'', VFloat 180),
      (''subpage_upper_right_latitude'', VFloat 90),
      (''subpage_lower_left_latitude'', VFloat (- 90)),
      (''subpage_lower_left_longitude'', VFloat (- 180))]"

definition started_world :: world where
  "started_world =
     \<lparr>objects =
        [\<lparr>cls = mcont, kwargs = [(''contour_automatic_setting'', VStr ''ecmwf''),
                                 (''legend'', VBool False)]\<rparr>,
         \<lparr>cls = mcoast, kwargs = [(''map_grid'', VBool False), (''map_label'', VBool False)]\<rparr>,
         \<lparr>cls = mcoast, kwargs = [(''map_grid'', VBool False),
                                  (''map_coastline_colour'', VStr ''black'')]\<rparr>],
      warnings = []\<rparr>"

definition started_driver :: Driver where
  "started_driver = fresh_driver [] (Some 1) (Some 2)"

definition boxed_world :: world where
  "boxed_world =
     started_world\<lparr>objects := objects started_world @ [\<lparr>cls = mmap, kwargs = world_projection\<rparr>]\<rparr>"

definition projected_driver :: Driver where
  "projected_driver = started_driver\<lparr>D_projection := Some 3\<rparr>"

definition boxed_driver :: Driver where
  "boxed_driver =
     projected_driver\<lparr>D_bounding_box := Some \<lparr>north = 20, west = - 10, south = - 20, east = 10\<rparr>\<rparr>"

definition partial_world :: world where
  "partial_world =
     initial_world\<lparr>objects := objects initial_world @
       [\<lparr>cls = mmap, kwargs = [(''subpage_map_projection'', VStr ''cylindrical''),
                               (''subpage_upper_right_longitude'', VFloat 50)]\<rparr>]\<rparr>"

definition partial_driver :: Driver where
  "partial_driver =
     (fresh_driver [(''margins'', VInt 5)] None None)
       \<lparr>D_projection := Some 1,
        D_bounding_box := Some \<lparr>north = 20, west = - 10, south = - 20, east = 10\<rparr>\<rparr>"

section \<open>Properties\<close>

subsection \<open>Directive.patch\<close>

lemma update_kwargs_operations:
  "\<forall>k \<in> fst ` set vs. k \<noteq> [] \<Longrightarrow>
   \<exists>kw'. update_kwargs kw vs = Inr kw' \<and>
         map_of kw' = fold apply_operation (operations_of vs) (map_of kw)"
proof (induction vs arbitrary: kw)
  case Nil
  then show ?case by simp
next
  case (Cons kv vs)
  obtain k v where kv: "kv = (k, v)" by (cases kv)
  from Cons.prems kv obtain c r where k: "k = c # r" by (cases k) auto
  from Cons.prems have rest: "\<forall>k \<in> fst ` set vs. k \<noteq> []" by simp
  define kw1 where "kw1 = (if c = CHR ''+'' then AList.update r v kw else kw)"
  define kw2 where "kw2 = (if c = CHR ''-'' then AList.delete r kw1 else kw1)"
  define kw3 where "kw3 = (if c = CHR ''='' then
                        (if map_of kw2 r = None then AList.update r v kw2 else kw2)
                      else kw2)"
  have step: "update_kwargs kw (kv # vs) = update_kwargs kw3 vs"
    by (simp add: kv k kw1_def kw2_def kw3_def)
  have m: "map_of kw3 = fold apply_operation (operations_of [kv]) (map_of kw)"
    by (auto simp: kv k kw1_def kw2_def kw3_def update_conv' delete_conv')
  have ops: "operations_of (kv # vs) = operations_of [kv] @ operations_of vs"
    by (simp add: kv)
  from Cons.IH [OF rest, of kw3] obtain kw' where
    "update_kwargs kw3 vs = Inr kw'"
    "map_of kw' = fold apply_operation (operations_of vs) (map_of kw3)" by blast
  then show ?case
    unfolding step ops m by (intro exI [of _ kw']) simp
qed

text \<open>
  C5. \<^verbatim>\<open>Action.update\<close> on an object whose class is not an instance of the target type
  returns None and leaves the store, hence the object's parameters, unchanged. When the
  class matches (and no key is empty), it returns the address of the same object, whose
  parameters are those obtained by applying the add, remove and set-if-absent operations
  of the keys in sequence; nothing else in the store changes.
\<close>

theorem Action_update_patch:
  assumes "deref w self = Some obj"
  shows "(\<not> issubclass (cls obj) a \<longrightarrow> Action_update w self (Some a) vs = Inr (w, None)) \<and>
         (issubclass (cls obj) a \<and> (\<forall>k \<in> fst ` set vs. k \<noteq> []) \<longrightarrow>
            (\<exists>kw'. Action_update w self (Some a) vs =
                     Inr (w\<lparr>objects := (objects w)[self := obj\<lparr>kwargs := kw'\<rparr>]\<rparr>, Some self) \<and>
                   map_of kw' = fold apply_operation (operations_of vs) (map_of (kwargs obj))))"
proof (intro conjI impI)
  assume "\<not> issubclass (cls obj) a"
  with assms show "Action_update w self (Some a) vs = Inr (w, None)"
    by (simp add: Action_update_def)
next
  assume h: "issubclass (cls obj) a \<and> (\<forall>k \<in> fst ` set vs. k \<noteq> [])"
  then obtain kw' where kw': "update_kwargs (kwargs obj) vs = Inr kw'"
    and m: "map_of kw' = fold apply_operation (operations_of vs) (map_of (kwargs obj))"
    using update_kwargs_operations [of vs "kwargs obj"] by blast
  from assms h kw' have "Action_update w self (Some a) vs =
      Inr (w\<lparr>objects := (objects w)[self := obj\<lparr>kwargs := kw'\<rparr>]\<rparr>, Some self)"
    by (simp add: Action_update_def)
  with m show "\<exists>kw'. Action_update w self (Some a) vs =
                     Inr (w\<lparr>objects := (objects w)[self := obj\<lparr>kwargs := kw'\<rparr>]\<rparr>, Some self) \<and>
                   map_of kw' = fold apply_operation (operations_of vs) (map_of (kwargs obj))"
    by blast
qed

theorem Action_update_patch_witness:
  "deref initial_world 0 =
     Some \<lparr>cls = mcont, kwargs = [(''contour_automatic_setting'', VStr ''ecmwf''),
                                  (''legend'', VBool False)]\<rparr> \<and>
   Action_update initial_world 0 (Some mmap)
     [(''+legend'', VBool True), (''-contour_automatic_setting'', VNone),
      (''=contour_line_colour'', VStr ''red'')] = Inr (initial_world, None) \<and>
   (\<exists>kw'. Action_update initial_world 0 (Some mcont)
       [(''+legend'', VBool True), (''-contour_automatic_setting'', VNone),
        (''=contour_line_colour'', VStr ''red'')] =
       Inr (initial_world\<lparr>objects := (objects initial_world)
              [0 := \<lparr>cls = mcont, kwargs = [(''contour_automatic_setting'', VStr ''ecmwf''),
                                          (''legend'', VBool False)]\<rparr>\<lparr>kwargs := kw'\<rparr>]\<rparr>, Some 0) \<and>
     map_of kw' ''legend'' = Some (VBool True) \<and>
     map_of kw' ''contour_automatic_setting'' = None \<and>
     map_of kw' ''contour_line_colour'' = Some (VStr ''red''))"
proof -
  let ?obj = "\<lparr>cls = mcont, kwargs = [(''contour_automatic_setting'', VStr ''ecmwf''),
                                     (''legend'', VBool False)]\<rparr>"
  let ?vs = "[(''+legend'', VBool True), (''-contour_automatic_setting'', VNone),
              (''=contour_line_colour'', VStr ''red'')]"
  have d: "deref initial_world 0 = Some ?obj"
    by (simp add: deref_def initial_world_def)
  have no: "Action_update initial_world 0 (Some mmap) ?vs = Inr (initial_world, None)"
    using Action_update_patch [OF d, of mmap ?vs] by simp
  have "\<exists>kw'. Action_update initial_world 0 (Some mcont) ?vs =
          Inr (initial_world\<lparr>objects := (objects initial_world)[0 := ?obj\<lparr>kwargs := kw'\<rparr>]\<rparr>, Some 0) \<and>
        map_of kw' = fold apply_operation (operations_of ?vs) (map_of (kwargs ?obj))"
    using Action_update_patch [OF d, of mcont ?vs] by simp
  then obtain kw' where
    a: "Action_update initial_world 0 (Some mcont) ?vs =
          Inr (initial_world\<lparr>objects := (objects initial_world)[0 := ?obj\<lparr>kwargs := kw'\<rparr>]\<rparr>, Some 0)"
    and m: "map_of kw' = fold apply_operation (operations_of ?vs) (map_of (kwargs ?obj))"
    by blast
  from m have "map_of kw' ''legend'' = Some (VBool True)"
    "map_of kw' ''contour_automatic_setting'' = None"
    "map_of kw' ''contour_line_colour'' = Some (VStr ''red'')"
    by simp_all
  with d no a show ?thesis by blast
qed

subsection \<open>Assembly order\<close>

lemma present_filter: "map the (filter (\<lambda>x. x \<noteq> None) xs) = present xs"
  by (induction xs) (auto simp: present_def)

lemma present_append: "present (xs @ ys) = present xs @ present ys"
  by (simp add: present_def)

lemma fold_add_action:
  "present (fold add_action ls m) =
     present m @ concat (map (\<lambda>l. present [L_data l, L_style l]) ls)"
proof (induction ls arbitrary: m)
  case Nil
  then show ?case by simp
next
  case (Cons l ls)
  have "present (add_action l m) = present m @ present [L_data l, L_style l]"
    by (auto simp: add_action_def Let_def present_def)
  with Cons [of "add_action l m"] show ?case by simp
qed

text \<open>
  C2. For every Driver state, \<^verbatim>\<open>Driver.macro\<close> returns exactly the projection, the
  background, then the data and the style of each layer in insertion order, then rivers,
  borders, cities, foreground, grid, legend and title, without the entries that are None.
  The sequence is a function of the Driver state alone.
\<close>

theorem macro_assembly_order: "macro d = assembly_order d"
  unfolding macro_def assembly_order_def Let_def present_filter present_append fold_add_action
  by simp

subsection \<open>Page ratio\<close>

text \<open>
  C8, amended. The page ratio is (north - south) / (east - west) over the four subpage
  extent parameters of the projection, each falling back to its full-world default (north
  90, south -90, east 180, west -180) when it is not set. For the full-world extent the
  page ratio is 180 / 360 = 0.5.
\<close>

theorem page_ratio_extent:
  assumes "number (get_default (kwargs p) ''subpage_upper_right_latitude'' (VFloat 90)) = Some n"
    and "number (get_default (kwargs p) ''subpage_lower_left_latitude'' (VFloat (- 90))) = Some s"
    and "number (get_default (kwargs p) ''subpage_upper_right_longitude'' (VFloat 180)) = Some e"
    and "number (get_default (kwargs p) ''subpage_lower_left_longitude'' (VInt (- 180))) = Some w"
    and "e \<noteq> w"
  shows "page_ratio p = Inr ((n - s) / (e - w)) \<and>
         (n = 90 \<and> s = - 90 \<and> e = 180 \<and> w = - 180 \<longrightarrow> page_ratio p = Inr (1 / 2))"
  using assms by (auto simp: page_ratio_def Let_def)

theorem page_ratio_extent_witness:
  "number (get_default [(''subpage_map_projection'', VStr ''cylindrical'')]
             ''subpage_upper_right_latitude'' (VFloat 90)) = Some 90 \<and>
   number (get_default [(''subpage_map_projection'', VStr ''cylindrical'')]
             ''subpage_lower_left_latitude'' (VFloat (- 90))) = Some (- 90) \<and>
   number (get_default [(''subpage_map_projection'', VStr ''cylindrical'')]
             ''subpage_upper_right_longitude'' (VFloat 180)) = Some 180 \<and>
   number (get_default [(''subpage_map_projection'', VStr ''cylindrical'')]
             ''subpage_lower_left_longitude'' (VInt (- 180))) = Some (- 180) \<and>
   (180 :: rat) \<noteq> - 180 \<and>
   page_ratio \<lparr>cls = mmap, kwargs = [(''subpage_map_projection'', VStr ''cylindrical'')]\<rparr>
     = Inr (1 / 2)"
proof -
  let ?p = "\<lparr>cls = mmap, kwargs = [(''subpage_map_projection'', VStr ''cylindrical'')]\<rparr>"
  have n: "number (get_default (kwargs ?p) ''subpage_upper_right_latitude'' (VFloat 90)) = Some 90"
    by (simp add: get_default_def)
  have s: "number (get_default (kwargs ?p) ''subpage_lower_left_latitude'' (VFloat (- 90)))
             = Some (- 90)"
    by (simp add: get_default_def)
  have e: "number (get_default (kwargs ?p) ''subpage_upper_right_longitude'' (VFloat 180))
             = Some 180"
    by (simp add: get_default_def)
  have w: "number (get_default (kwargs ?p) ''subpage_lower_left_longitude'' (VInt (- 180)))
             = Some (- 180)"
    by (simp add: get_default_def)
  have ne: "(180::rat) \<noteq> - 180" by simp
  from page_ratio_extent [OF n s e w ne] n s e w show ?thesis by simp
qed

text \<open>
  The claim as stated gives 1.0 for the extent north 90, south -90, east 180, west -180;
  the code gives 0.5.
\<close>

theorem page_ratio_world_counterexample:
  "page_ratio \<lparr>cls = mmap,
               kwargs = [(''subpage_upper_right_latitude'', VFloat 90),
                         (''subpage_lower_left_latitude'', VFloat (- 90)),
                         (''subpage_upper_right_longitude'', VFloat 180),
                         (''subpage_lower_left_longitude'', VFloat (- 180))]\<rparr> = Inr (1 / 2) \<and>
   page_ratio \<lparr>cls = mmap,
               kwargs = [(''subpage_upper_right_latitude'', VFloat 90),
                         (''subpage_lower_left_latitude'', VFloat (- 90)),
                         (''subpage_upper_right_longitude'', VFloat 180),
                         (''subpage_lower_left_longitude'', VFloat (- 180))]\<rparr> \<noteq> Inr 1"
  by (simp add: page_ratio_def get_default_def)

subsection \<open>Resolving true\<close>

lemma apply'_default_unused:
  "v \<noteq> VBool True \<Longrightarrow> apply' env w v coll act d tgt = apply' env w v coll act d' tgt"
proof (induction env w v coll act d tgt rule: apply'.induct)
  case (3 env w d coll act dflt tgt)
  then show ?case by (auto split: sum.splits)
qed simp_all

text \<open>
  C7, amended. Resolving the value true fails with an assertion error exactly when the
  default argument is the value true (the parameter's own default, which stands for "no
  default"). With any other default D, false included, it is the resolution of D with the
  default slot cleared, and that is the resolution of D with any default slot.
\<close>

theorem apply'_True:
  "(dflt = VBool True \<longrightarrow> apply' env w (VBool True) coll act dflt tgt = Inl AssertionError) \<and>
   (dflt \<noteq> VBool True \<longrightarrow>
      apply' env w (VBool True) coll act dflt tgt = apply' env w dflt coll act VNone tgt \<and>
      apply' env w (VBool True) coll act dflt tgt = apply' env w dflt coll act d' tgt)"
  using apply'_default_unused [of dflt env w coll act VNone tgt d'] by simp

theorem apply'_True_witness:
  "apply' example_env initial_world (VBool True) (Some ''layers'') None (VBool True) NoTarget
     = Inl AssertionError \<and>
   VStr ''default-background'' \<noteq> VBool True \<and>
   apply' example_env initial_world (VBool True) (Some ''layers'') None
     (VStr ''default-background'') NoTarget
     = apply' example_env initial_world (VStr ''default-background'') (Some ''layers'') None
         (VBool True) NoTarget"
  using apply'_True [of "VBool True" example_env initial_world "Some ''layers''" None NoTarget]
    apply'_True [of "VStr ''default-background''" example_env initial_world "Some ''layers''"
                   None NoTarget "VBool True"]
  by simp

text \<open>
  The claim as stated makes a boolean default fail; with the default false the code
  returns None and raises nothing.
\<close>

theorem apply'_True_False_counterexample:
  "apply' example_env initial_world (VBool True) None None (VBool False) NoTarget =
     Inr (initial_world, None)"
  by simp

subsection \<open>plot\_csv\<close>


subsection \<open>A fresh Driver\<close>





subsection \<open>Grouping forms\<close>

lemma pm_plus: "''+'' \<notin> fst ` set d \<Longrightarrow> map_of (plus_minus_form d) ''+'' = map_of d ''set''"
  by (induction d) (auto simp: plus_minus_form_def)

lemma pm_minus: "''-'' \<notin> fst ` set d \<Longrightarrow> map_of (plus_minus_form d) ''-'' = map_of d ''clear''"
  by (induction d) (auto simp: plus_minus_form_def)

lemma pm_set: "map_of (plus_minus_form d) ''set'' = None"
  by (induction d) (auto simp: plus_minus_form_def)

lemma pm_clear: "map_of (plus_minus_form d) ''clear'' = None"
  by (induction d) (auto simp: plus_minus_form_def)

lemma pm_id:
  "map_of d ''set'' = None \<Longrightarrow> map_of d ''clear'' = None \<Longrightarrow> plus_minus_form d = d"
  by (induction d) (auto simp: plus_minus_form_def split: if_splits)

lemma fold_set_map_of:
  "distinct (map fst its) \<Longrightarrow>
   map_of (fold (\<lambda>kv nv. AList.update (CHR ''+'' # fst kv) (snd kv) nv) its acc) k =
     (case k of [] \<Rightarrow> map_of acc k
      | c # r \<Rightarrow> if c = CHR ''+'' \<and> r \<in> fst ` set its then map_of its r else map_of acc k)"
proof (induction its arbitrary: acc)
  case Nil
  then show ?case by (simp split: list.splits)
next
  case (Cons kv its)
  then show ?case
    by (cases kv) (auto simp: update_conv' map_of_eq_None_iff split: list.splits)
qed

lemma fold_clear_map_of:
  "map_of (fold (\<lambda>k nv. AList.update (f k) VNone nv) ks acc) k =
     (if k \<in> f ` set ks then Some VNone else map_of acc k)"
  by (induction ks arbitrary: acc) (auto simp: update_conv')

lemma format_str_VStr: "format_str env (VStr s) = s"
  by (simp add: format_str_def)

lemma rewrite_strings:
  assumes "distinct (map fst its)"
  shows "\<exists>nv. rewrite env (VDict its) (VList (map VStr ks)) = Inr nv \<and>
              map_of nv = rewritten its ks"
proof -
  let ?nv1 = "fold (\<lambda>kv nv. AList.update (CHR ''+'' # fst kv) (snd kv) nv) its []"
  let ?nv = "fold (\<lambda>k nv. AList.update (CHR ''-'' # format_str env k) VNone nv) (map VStr ks) ?nv1"
  have r: "rewrite env (VDict its) (VList (map VStr ks)) = Inr ?nv"
    by (simp add: rewrite_def items_of_def iter_of_def)
  have img: "(\<lambda>k. CHR ''-'' # format_str env k) ` set (map VStr ks) = (\<lambda>x. CHR ''-'' # x) ` set ks"
    by (auto simp: format_str_VStr image_iff)
  have "map_of ?nv k = rewritten its ks k" for k
    unfolding fold_clear_map_of img fold_set_map_of [OF assms]
    by (auto simp: rewritten_def split: list.splits
        intro: map_of_eq_None_iff [THEN iffD2, symmetric])
  with r show ?thesis by blast
qed

text \<open>
  C6. A dictionary in \<^verbatim>\<open>set\<close>/\<^verbatim>\<open>clear\<close> form and the same dictionary in
  \<^verbatim>\<open>+\<close>/\<^verbatim>\<open>-\<close> form resolve to the same result, for any content: both are rewritten by
  the same rewriting of the same two entries, and resolution recurses on the rewritten
  dictionary. For entries to set with distinct keys and a list of strings to clear the
  rewritten dictionary has the entries to set under \<^verbatim>\<open>+\<close>-prefixed keys and None under
  the \<^verbatim>\<open>-\<close>-prefixed keys to clear.
\<close>

theorem grouping_forms_agree:
  assumes "''+'' \<notin> fst ` set d" and "''-'' \<notin> fst ` set d"
  shows "apply' env w (VDict (plus_minus_form d)) coll act dflt tgt =
           apply' env w (VDict d) coll act dflt tgt \<and>
         (map_of d ''set'' \<noteq> None \<or> map_of d ''clear'' \<noteq> None \<longrightarrow>
            apply' env w (VDict d) coll act dflt tgt =
              (case rewrite env (get_default d ''set'' (VDict []))
                      (get_default d ''clear'' (VList [])) of
                 Inl e \<Rightarrow> Inl e
               | Inr nv \<Rightarrow> apply' env w (VDict nv) coll act dflt tgt) \<and>
            rewrite env (get_default (plus_minus_form d) ''+'' (VDict []))
                (get_default (plus_minus_form d) ''-'' (VList [])) =
              rewrite env (get_default d ''set'' (VDict [])) (get_default d ''clear'' (VList []))) \<and>
         (\<forall>its ks. distinct (map fst its) \<longrightarrow>
            (\<exists>nv. rewrite env (VDict its) (VList (map VStr ks)) = Inr nv \<and>
                  map_of nv = rewritten its ks))"
proof (intro conjI impI allI)
  show "apply' env w (VDict (plus_minus_form d)) coll act dflt tgt =
           apply' env w (VDict d) coll act dflt tgt"
  proof (cases "map_of d ''set'' \<noteq> None \<or> map_of d ''clear'' \<noteq> None")
    case True
    with assms show ?thesis
      by (simp add: pm_plus pm_minus pm_set pm_clear get_default_def)
  next
    case False
    then show ?thesis by (simp add: pm_id)
  qed
next
  assume "map_of d ''set'' \<noteq> None \<or> map_of d ''clear'' \<noteq> None"
  then show "apply' env w (VDict d) coll act dflt tgt =
              (case rewrite env (get_default d ''set'' (VDict []))
                      (get_default d ''clear'' (VList [])) of
                 Inl e \<Rightarrow> Inl e
               | Inr nv \<Rightarrow> apply' env w (VDict nv) coll act dflt tgt)"
    by simp
next
  from assms show "rewrite env (get_default (plus_minus_form d) ''+'' (VDict []))
                (get_default (plus_minus_form d) ''-'' (VList [])) =
              rewrite env (get_default d ''set'' (VDict [])) (get_default d ''clear'' (VList []))"
    by (simp add: pm_plus pm_minus get_default_def)
next
  fix its :: pydict and ks
  assume "distinct (map fst its)"
  then show "\<exists>nv. rewrite env (VDict its) (VList (map VStr ks)) = Inr nv \<and>
                  map_of nv = rewritten its ks"
    by (rule rewrite_strings)
qed

theorem grouping_forms_agree_witness:
  "''+'' \<notin> fst ` set [(''set'', VDict [(''legend'', VBool True)]),
                        (''clear'', VList [VStr ''contour_automatic_setting''])] \<and>
   ''-'' \<notin> fst ` set [(''set'', VDict [(''legend'', VBool True)]),
                        (''clear'', VList [VStr ''contour_automatic_setting''])] \<and>
   apply' example_env initial_world
     (VDict [(''+'', VDict [(''legend'', VBool True)]),
             (''-'', VList [VStr ''contour_automatic_setting''])])
     None None (VBool True) (ActionTarget 0) =
   apply' example_env initial_world
     (VDict [(''set'', VDict [(''legend'', VBool True)]),
             (''clear'', VList [VStr ''contour_automatic_setting''])])
     None None (VBool True) (ActionTarget 0) \<and>
   apply' example_env initial_world
     (VDict [(''set'', VDict [(''legend'', VBool True)]),
             (''clear'', VList [VStr ''contour_automatic_setting''])])
     None None (VBool True) (ActionTarget 0) =
   Inr (\<lparr>objects = [\<lparr>cls = mcont, kwargs = [(''legend'', VBool True)]\<rparr>], warnings = []\<rparr>,
        Some 0)"
proof -
  let ?d = "[(''set'', VDict [(''legend'', VBool True)]),
             (''clear'', VList [VStr ''contour_automatic_setting''])]"
  have p: "''+'' \<notin> fst ` set ?d" by simp
  have m: "''-'' \<notin> fst ` set ?d" by simp
  have f: "plus_minus_form ?d = [(''+'', VDict [(''legend'', VBool True)]),
             (''-'', VList [VStr ''contour_automatic_setting''])]"
    by (simp add: plus_minus_form_def)
  have v: "apply' example_env initial_world (VDict ?d) None None (VBool True) (ActionTarget 0) =
     Inr (\<lparr>objects = [\<lparr>cls = mcont, kwargs = [(''legend'', VBool True)]\<rparr>], warnings = []\<rparr>,
        Some 0)"
    by code_simp
  from grouping_forms_agree [OF p m, of example_env initial_world None None "VBool True"
      "ActionTarget 0"] f v p m
  show ?thesis by simp
qed

subsection \<open>Type inference\<close>

lemma one_type: "(length acts = 1 \<and> hd acts = t) = (acts = [t])"
  by (cases acts) auto

lemma map_of_incr:
  "map_of (incr t sc) = (map_of sc)(t \<mapsto> (case map_of sc t of None \<Rightarrow> 1 | Some n \<Rightarrow> n + 1))"
  by (simp add: incr_def update_conv')

lemma distinct_incr: "distinct (map fst sc) \<Longrightarrow> distinct (map fst (incr t sc))"
  by (simp add: incr_def distinct_update)

lemma score_keys_scores:
  assumes "\<forall>k \<in> set keys. k \<noteq> []" and "distinct (map fst sc0)"
  shows "\<exists>sc. score_keys env keys (sc0, sp0) = Inr (sc, sp0 + special_of keys) \<and>
              distinct (map fst sc) \<and>
              (\<forall>t. map_of sc t =
                 (case map_of sc0 t of
                    None \<Rightarrow> if score_of env keys t = 0 then None else Some (score_of env keys t)
                  | Some m \<Rightarrow> Some (m + score_of env keys t)))"
  using assms
proof (induction keys arbitrary: sc0 sp0)
  case Nil
  then show ?case by (simp add: special_of_def score_of_def split: option.splits)
next
  case (Cons k keys)
  from Cons.prems obtain c r where k: "k = c # r" by (cases k) auto
  define p where "p = (if isalpha c then k else r)"
  define sc1 where "sc1 = (if length (MAGICS_KEYS env p) = 1 then incr (hd (MAGICS_KEYS env p)) sc0
                           else sc0)"
  define sp1 where "sp1 = (if isalpha c then sp0 else sp0 + 1)"
  have step: "score_keys env (k # keys) (sc0, sp0) = score_keys env keys (sc1, sp1)"
    by (simp add: k p_def sc1_def sp1_def)
  have pn: "param_name k = p" by (simp add: param_name_def k p_def)
  have d1: "distinct (map fst sc1)"
    using Cons.prems(2) by (simp add: sc1_def distinct_incr)
  have rest: "\<forall>k \<in> set keys. k \<noteq> []" using Cons.prems(1) by simp
  from Cons.IH [OF rest d1, of sp1] obtain sc where
    r: "score_keys env keys (sc1, sp1) = Inr (sc, sp1 + special_of keys)" and
    d: "distinct (map fst sc)" and
    m: "\<forall>t. map_of sc t =
           (case map_of sc1 t of
              None \<Rightarrow> if score_of env keys t = 0 then None else Some (score_of env keys t)
            | Some m \<Rightarrow> Some (m + score_of env keys t))"
    by blast
  have sp: "sp1 + special_of keys = sp0 + special_of (k # keys)"
    by (simp add: sp1_def special_of_def k)
  have sc: "score_of env (k # keys) t =
              (if MAGICS_KEYS env p = [t] then 1 else 0) + score_of env keys t" for t
    by (simp add: score_of_def pn)
  have m1: "map_of sc1 t =
              (if MAGICS_KEYS env p = [t]
               then Some (case map_of sc0 t of None \<Rightarrow> 1 | Some n \<Rightarrow> n + 1)
               else map_of sc0 t)" for t
  proof (cases "length (MAGICS_KEYS env p) = 1")
    case True
    then show ?thesis
      using one_type [of "MAGICS_KEYS env p" t]
      by (auto simp: sc1_def map_of_incr)
  next
    case False
    then show ?thesis by (auto simp: sc1_def)
  qed
  have "map_of sc t =
          (case map_of sc0 t of
             None \<Rightarrow> if score_of env (k # keys) t = 0 then None
                     else Some (score_of env (k # keys) t)
           | Some m \<Rightarrow> Some (m + score_of env (k # keys) t))" for t
    using m [rule_format, of t] by (auto simp: m1 sc split: option.splits)
  with r d show ?case unfolding step sp by blast
qed

lemma swap_image: "((n, t) \<in> (\<lambda>(k, v). (v, k)) ` S) = ((t, n) \<in> S)"
  by force

lemma set_best_of:
  "distinct (map fst sc) \<Longrightarrow> ((n, t) \<in> set (best_of sc)) = (map_of sc t = Some n)"
  by (simp add: best_of_def swap_image)

lemma sorted_best_of: "sorted (best_of sc)"
  by (simp add: best_of_def)

lemma distinct_best_of:
  assumes "distinct (map fst sc)"
  shows "distinct (best_of sc)"
proof -
  from assms have "distinct sc" by (simp add: distinct_map)
  moreover have "inj_on (\<lambda>(k, v). (v, k)) (set sc)"
    by (auto simp: inj_on_def)
  ultimately have "distinct (map (\<lambda>(k, v). (v, k)) sc)"
    by (simp add: distinct_map)
  then show ?thesis by (simp add: best_of_def)
qed

lemma hd_sorted_least: "sorted xs \<Longrightarrow> p \<in> set xs \<Longrightarrow> hd xs \<le> p"
  by (cases xs) auto

lemma apply'_flat:
  "flat_dict d \<Longrightarrow> apply' env w (VDict d) coll act dflt tgt = apply_flat env w d act tgt"
  by (simp add: flat_dict_def)

lemma infer_warnings_empty: "infer_warnings w keys [] = warning w (CannotEstablish keys)"
  by (simp add: infer_warnings_def)

lemma infer_warnings_nonempty:
  "best \<noteq> [] \<Longrightarrow>
   infer_warnings w keys best =
     (if 2 \<le> length best \<and> fst (best ! 1) = fst (hd best)
      then warning w (CouldBe keys (snd (hd best)) (snd (best ! 1))) else w)"
  by (auto simp: infer_warnings_def hd_conv_nth)

lemma infer_action_nonempty:
  "best \<noteq> [] \<Longrightarrow>
   infer_action act best =
     (case globals_lookup (snd (hd best)) of None \<Rightarrow> Inl KeyError | Some c \<Rightarrow> Inr (Some c))"
  by (simp add: infer_action_def hd_conv_nth)

lemma hd_best_least:
  fixes best :: "(nat \<times> string) list"
  assumes "sorted best" and "p \<in> set best"
  shows "fst (hd best) < fst p \<or> (fst (hd best) = fst p \<and> snd (hd best) \<le> snd p)"
  using hd_sorted_least [OF assms] by (auto simp: less_eq_prod_def)


lemma best_of_mem:
  assumes dist: "distinct (map fst sc)"
    and m: "\<forall>t. map_of sc t = (if score_of env keys t = 0 then None
                            else Some (score_of env keys t))"
  shows "((n, t) \<in> set (best_of sc)) = (n = score_of env keys t \<and> n \<noteq> 0)"
  unfolding set_best_of [OF dist] m [rule_format] by auto

lemma apply_flat_unprefixed:
  assumes r: "score_keys env (map fst d) ([], 0) = Inr (sc, 0)"
  shows "apply_flat env w d act tgt =
          (case infer_action act (best_of sc) of
             Inl e \<Rightarrow> Inl e
           | Inr None \<Rightarrow> Inl TypeError
           | Inr (Some c) \<Rightarrow>
               (let (w2, a) = new_action (infer_warnings w (map fst d) (best_of sc)) c d
                in Inr (w2, Some a)))"
  by (simp add: apply_flat_def r Let_def split: sum.split option.split)

lemma score_of_unprefixed:
  assumes "\<forall>k \<in> set keys. k \<noteq> []"
  shows "special_of keys = 0 \<longrightarrow> (\<forall>t. score_of env keys t = unprefixed_score env keys t)"
proof (intro impI allI)
  fix t
  assume "special_of keys = 0"
  then have al: "\<forall>k \<in> set keys. isalpha (hd k)"
    by (simp add: special_of_def filter_empty_conv)
  have "filter (\<lambda>k. MAGICS_KEYS env (param_name k) = [t]) keys =
        filter (\<lambda>k. unprefixed k \<and> MAGICS_KEYS env k = [t]) keys"
  proof (rule filter_cong [OF refl])
    fix k
    assume k: "k \<in> set keys"
    with assms al have "k \<noteq> []" and "isalpha (hd k)" by simp_all
    then obtain c r where "k = c # r" and "isalpha c" by (cases k) auto
    then have "unprefixed k" and "param_name k = k"
      by (simp_all add: unprefixed_def param_name_def)
    then show "(MAGICS_KEYS env (param_name k) = [t]) =
               (unprefixed k \<and> MAGICS_KEYS env k = [t])"
      by simp
  qed
  then show "score_of env keys t = unprefixed_score env keys t"
    by (simp only: score_of_def unprefixed_score_def)
qed

text \<open>
  C3, amended. On a dictionary without empty keys, the scoring loop returns the scores in
  which a type has the number of keys whose looked-up name the parameter index maps to
  exactly that type (a name mapped to no type or to several contributes nothing). Every
  key is scored: an unprefixed key is looked up as it is, and a key whose first character
  is not a letter, a modifier-prefixed key included, is looked up without that character;
  on a dictionary of unprefixed keys the score is the score counted over the unprefixed
  keys. The candidates are ranked ascending by (score, type name) and the first one is the
  inferred type, looked up among the classes of the module; when the first two have the
  same score the warning "it could be" is logged and the first is still taken; when there
  is no candidate the warning "cannot establish" is logged and the action is left as the
  caller gave it. A flat dictionary of unprefixed keys resolves to a new directive of the
  inferred type with the dictionary as parameters.
\<close>

theorem type_inference:
  assumes "\<forall>k \<in> fst ` set d. k \<noteq> []"
  shows "\<exists>scores.
     score_keys env (map fst d) ([], 0) = Inr (scores, special_of (map fst d)) \<and>
     (\<forall>k. k \<noteq> [] \<and> isalpha (hd k) \<longrightarrow> param_name k = k) \<and>
     (\<forall>k. k \<noteq> [] \<and> \<not> isalpha (hd k) \<longrightarrow> param_name k = tl k) \<and>
     (special_of (map fst d) = 0 \<longrightarrow>
        (\<forall>t. score_of env (map fst d) t = unprefixed_score env (map fst d) t)) \<and>
     (\<forall>n t. ((n, t) \<in> set (best_of scores)) = (n = score_of env (map fst d) t \<and> n \<noteq> 0)) \<and>
     sorted (best_of scores) \<and> distinct (best_of scores) \<and>
     (best_of scores = [] \<longrightarrow>
        infer_action act (best_of scores) = Inr act \<and>
        infer_warnings w (map fst d) (best_of scores) = warning w (CannotEstablish (map fst d))) \<and>
     (best_of scores \<noteq> [] \<longrightarrow>
        (\<forall>p \<in> set (best_of scores).
           fst (hd (best_of scores)) < fst p \<or>
           (fst (hd (best_of scores)) = fst p \<and> snd (hd (best_of scores)) \<le> snd p)) \<and>
        infer_action act (best_of scores) =
          (case globals_lookup (snd (hd (best_of scores))) of
             None \<Rightarrow> Inl KeyError
           | Some c \<Rightarrow> Inr (Some c)) \<and>
        infer_warnings w (map fst d) (best_of scores) =
          (if 2 \<le> length (best_of scores) \<and>
              fst (best_of scores ! 1) = fst (hd (best_of scores))
           then warning w (CouldBe (map fst d) (snd (hd (best_of scores)))
                             (snd (best_of scores ! 1)))
           else w)) \<and>
     (flat_dict d \<and> special_of (map fst d) = 0 \<longrightarrow>
        apply' env w (VDict d) coll act dflt tgt =
          (case infer_action act (best_of scores) of
             Inl e \<Rightarrow> Inl e
           | Inr None \<Rightarrow> Inl TypeError
           | Inr (Some c) \<Rightarrow>
               (let (w2, a) = new_action (infer_warnings w (map fst d) (best_of scores)) c d
                in Inr (w2, Some a))))"
proof -
  from assms have ne: "\<forall>k \<in> set (map fst d). k \<noteq> []" by simp
  have "distinct (map fst ([] :: (string \<times> nat) list))" by simp
  from score_keys_scores [OF ne this, of env 0]
  have "\<exists>sc. score_keys env (map fst d) ([], 0) = Inr (sc, special_of (map fst d)) \<and>
             distinct (map fst sc) \<and>
             (\<forall>t. map_of sc t = (if score_of env (map fst d) t = 0 then None
                                 else Some (score_of env (map fst d) t)))"
    by simp
  then obtain sc where
    r: "score_keys env (map fst d) ([], 0) = Inr (sc, special_of (map fst d))" and
    dist: "distinct (map fst sc)" and
    m: "\<forall>t. map_of sc t = (if score_of env (map fst d) t = 0 then None
                            else Some (score_of env (map fst d) t))"
    by blast
  have pn: "\<forall>k. k \<noteq> [] \<and> isalpha (hd k) \<longrightarrow> param_name k = k"
    by (simp add: param_name_def split: list.split)
  have pp: "\<forall>k. k \<noteq> [] \<and> \<not> isalpha (hd k) \<longrightarrow> param_name k = tl k"
    by (simp add: param_name_def split: list.split)
  have us: "special_of (map fst d) = 0 \<longrightarrow>
              (\<forall>t. score_of env (map fst d) t = unprefixed_score env (map fst d) t)"
    using ne by (rule score_of_unprefixed)
  have mem: "\<forall>n t. ((n, t) \<in> set (best_of sc)) = (n = score_of env (map fst d) t \<and> n \<noteq> 0)"
    using best_of_mem [OF dist m] by blast
  have empty: "best_of sc = [] \<longrightarrow>
        infer_action act (best_of sc) = Inr act \<and>
        infer_warnings w (map fst d) (best_of sc) = warning w (CannotEstablish (map fst d))"
    by (simp add: infer_action_def infer_warnings_empty)
  have least: "\<forall>p \<in> set (best_of sc).
           fst (hd (best_of sc)) < fst p \<or>
           (fst (hd (best_of sc)) = fst p \<and> snd (hd (best_of sc)) \<le> snd p)"
    using hd_best_least [OF sorted_best_of] by blast
  have flat: "flat_dict d \<and> special_of (map fst d) = 0 \<longrightarrow>
        apply' env w (VDict d) coll act dflt tgt =
          (case infer_action act (best_of sc) of
             Inl e \<Rightarrow> Inl e
           | Inr None \<Rightarrow> Inl TypeError
           | Inr (Some c) \<Rightarrow>
               (let (w2, a) = new_action (infer_warnings w (map fst d) (best_of sc)) c d
                in Inr (w2, Some a)))"
  proof
    assume a: "flat_dict d \<and> special_of (map fst d) = 0"
    with r have r0: "score_keys env (map fst d) ([], 0) = Inr (sc, 0)" by simp
    from a have "flat_dict d" by (rule conjunct1)
    then have "apply' env w (VDict d) coll act dflt tgt = apply_flat env w d act tgt"
      by (rule apply'_flat)
    with apply_flat_unprefixed [OF r0, of w act tgt]
    show "apply' env w (VDict d) coll act dflt tgt =
          (case infer_action act (best_of sc) of
             Inl e \<Rightarrow> Inl e
           | Inr None \<Rightarrow> Inl TypeError
           | Inr (Some c) \<Rightarrow>
               (let (w2, a) = new_action (infer_warnings w (map fst d) (best_of sc)) c d
                in Inr (w2, Some a)))"
      by (simp only:)
  qed
  have nonempty: "best_of sc \<noteq> [] \<longrightarrow>
        (\<forall>p \<in> set (best_of sc).
           fst (hd (best_of sc)) < fst p \<or>
           (fst (hd (best_of sc)) = fst p \<and> snd (hd (best_of sc)) \<le> snd p)) \<and>
        infer_action act (best_of sc) =
          (case globals_lookup (snd (hd (best_of sc))) of
             None \<Rightarrow> Inl KeyError
           | Some c \<Rightarrow> Inr (Some c)) \<and>
        infer_warnings w (map fst d) (best_of sc) =
          (if 2 \<le> length (best_of sc) \<and>
              fst (best_of sc ! 1) = fst (hd (best_of sc))
           then warning w (CouldBe (map fst d) (snd (hd (best_of sc)))
                             (snd (best_of sc ! 1)))
           else w)"
    using least infer_action_nonempty [of "best_of sc" act]
      infer_warnings_nonempty [of "best_of sc" w "map fst d"] by blast
  show ?thesis
    by (rule exI [of _ sc])
       (intro conjI r pn pp us mem sorted_best_of distinct_best_of [OF dist] empty nonempty flat)
qed


theorem type_inference_witness:
  "score_keys example_env [''map_grid'', ''symbol_type'', ''legend''] ([], 0) =
     Inr ([(''mcoast'', 1), (''msymb'', 1)], 0) \<and>
   best_of [(''mcoast'', 1), (''msymb'', 1)] = [(1, ''mcoast''), (1, ''msymb'')] \<and>
   sorted (best_of [(''mcoast'', 1), (''msymb'', 1)]) \<and>
   apply' example_env initial_world
     (VDict [(''map_grid'', VBool True), (''symbol_type'', VStr ''marker''),
             (''legend'', VBool False)])
     None None (VBool True) NoTarget =
   Inr (\<lparr>objects =
           [\<lparr>cls = mcont, kwargs = [(''contour_automatic_setting'', VStr ''ecmwf''),
                                    (''legend'', VBool False)]\<rparr>,
            \<lparr>cls = mcoast, kwargs = [(''map_grid'', VBool True),
                                     (''symbol_type'', VStr ''marker''),
                                     (''legend'', VBool False)]\<rparr>],
         warnings = [CouldBe [''map_grid'', ''symbol_type'', ''legend''] ''mcoast'' ''msymb'']\<rparr>,
        Some 1)"
proof -
  let ?d = "[(''map_grid'', VBool True), (''symbol_type'', VStr ''marker''),
             (''legend'', VBool False)]"
  have ne: "\<forall>k \<in> fst ` set ?d. k \<noteq> []" by simp
  have s: "score_keys example_env [''map_grid'', ''symbol_type'', ''legend''] ([], 0) =
             Inr ([(''mcoast'', 1), (''msymb'', 1)], 0)"
    by code_simp
  have b: "best_of [(''mcoast'', 1), (''msymb'', 1)] = [(1, ''mcoast''), (1, ''msymb'')]"
    by code_simp
  have v: "apply' example_env initial_world (VDict ?d) None None (VBool True) NoTarget =
   Inr (\<lparr>objects =
           [\<lparr>cls = mcont, kwargs = [(''contour_automatic_setting'', VStr ''ecmwf''),
                                    (''legend'', VBool False)]\<rparr>,
            \<lparr>cls = mcoast, kwargs = [(''map_grid'', VBool True),
                                     (''symbol_type'', VStr ''marker''),
                                     (''legend'', VBool False)]\<rparr>],
         warnings = [CouldBe [''map_grid'', ''symbol_type'', ''legend''] ''mcoast'' ''msymb'']\<rparr>,
        Some 1)"
    by code_simp
  from type_inference [OF ne, of example_env None initial_world None "VBool True" NoTarget]
  obtain sc where
    "score_keys example_env (map fst ?d) ([], 0) = Inr (sc, special_of (map fst ?d))" and
    st: "sorted (best_of sc)"
    by blast
  with s have "sc = [(''mcoast'', 1), (''msymb'', 1)]" by simp
  with st have "sorted (best_of [(''mcoast'', 1), (''msymb'', 1)])" by simp
  with s b v show ?thesis by blast
qed

text \<open>
  The claim as stated scores the unprefixed keys only. The dictionary with the single key
  \<^verbatim>\<open>+map_grid\<close> has no unprefixed key, so under the claim no candidate scores, a warning
  is logged and no type is inferred. The code scores the key under the name
  \<^verbatim>\<open>map_grid\<close>, infers \<^verbatim>\<open>mcoast\<close>, patches the background of a started driver and
  logs nothing.
\<close>

theorem type_inference_prefixed_counterexample:
  "filter unprefixed [''+map_grid''] = [] \<and>
   unprefixed_score example_env [''+map_grid''] ''mcoast'' = 0 \<and>
   score_keys example_env [''+map_grid''] ([], 0) = Inr ([(''mcoast'', 1)], 1) \<and>
   infer_action None (best_of [(''mcoast'', 1)]) = Inr (Some mcoast) \<and>
   warnings started_world = [] \<and>
   apply' example_env started_world (VDict [(''+map_grid'', VBool True)])
     (Some ''layers'') None (VStr ''default-background'') (ActionTarget 1) =
   Inr (\<lparr>objects =
           [\<lparr>cls = mcont, kwargs = [(''contour_automatic_setting'', VStr ''ecmwf''),
                                    (''legend'', VBool False)]\<rparr>,
            \<lparr>cls = mcoast, kwargs = [(''map_grid'', VBool True), (''map_label'', VBool False)]\<rparr>,
            \<lparr>cls = mcoast, kwargs = [(''map_grid'', VBool False),
                                     (''map_coastline_colour'', VStr ''black'')]\<rparr>],
         warnings = []\<rparr>,
        Some 1)"
  by code_simp

subsection \<open>Modifier keys\<close>





lemma apply_flat_scored:
  assumes "score_keys env (map fst d) ([], 0) = Inr (sc, sp)"
  shows "apply_flat env w d act tgt =
     (case infer_action act (best_of sc) of
        Inl e \<Rightarrow> Inl e
      | Inr act' \<Rightarrow>
          if sp \<noteq> 0 then
            if sp \<noteq> length d then Inl (CannotSetAndOverride (map fst d))
            else
              (case target_update (infer_warnings w (map fst d) (best_of sc)) tgt act' d of
                 Inl e \<Rightarrow> Inl e
               | Inr (w2, Some r) \<Rightarrow> Inr (w2, Some r)
               | Inr (w2, None) \<Rightarrow> Inl (CannotOverride (map fst d)))
          else
            (case act' of
               None \<Rightarrow> Inl TypeError
             | Some c \<Rightarrow>
                 (let (w2, a) = new_action (infer_warnings w (map fst d) (best_of sc)) c d
                  in Inr (w2, Some a))))"
  by (simp add: apply_flat_def assms Let_def)










subsection \<open>The bounding box in the projection\<close>

lemma objects_infer_warnings: "objects (infer_warnings w keys best) = objects w"
  by (simp add: infer_warnings_def warning_def Let_def)

lemma deref_infer_warnings: "deref (infer_warnings w keys best) a = deref w a"
  by (simp add: deref_def objects_infer_warnings)

lemma set_if_absent_keeps:
  "m k = Some v \<Longrightarrow> apply_operation (SetIfAbsent_op x y) m k = Some v"
  by auto

lemma extent_operations_keep:
  assumes "m k = Some v"
  shows "fold apply_operation (extent_operations bbox) m k = Some v"
proof -
  let ?m1 = "apply_operation (SetIfAbsent_op ''subpage_upper_right_longitude'' (VFloat (east bbox))) m"
  let ?m2 = "apply_operation (SetIfAbsent_op ''subpage_upper_right_latitude'' (VFloat (north bbox))) ?m1"
  let ?m3 = "apply_operation (SetIfAbsent_op ''subpage_lower_left_latitude'' (VFloat (south bbox))) ?m2"
  let ?m4 = "apply_operation (SetIfAbsent_op ''subpage_lower_left_longitude'' (VFloat (west bbox))) ?m3"
  from assms have "?m1 k = Some v" by (rule set_if_absent_keeps)
  then have "?m2 k = Some v" by (rule set_if_absent_keeps)
  then have "?m3 k = Some v" by (rule set_if_absent_keeps)
  then have "?m4 k = Some v" by (rule set_if_absent_keeps)
  then show ?thesis by (simp only: extent_operations_def fold_simps id_apply comp_apply)
qed

lemma extent_keys_special:
  "special_of [''=subpage_upper_right_longitude'', ''=subpage_upper_right_latitude'',
               ''=subpage_lower_left_latitude'', ''=subpage_lower_left_longitude''] = 4"
  by (simp add: special_of_def isalpha_def less_eq_char_def)

lemma extent_keys_names:
  "k \<in> set [''=subpage_upper_right_longitude'', ''=subpage_upper_right_latitude'',
             ''=subpage_lower_left_latitude'', ''=subpage_lower_left_longitude'']
   \<Longrightarrow> param_name k \<in> set extent_params"
  by (auto simp: param_name_def extent_params_def isalpha_def less_eq_char_def)

lemma extent_infer_action:
  assumes tb: "extents_of_mmap env"
    and dist: "distinct (map fst sc)"
    and m: "\<forall>t. map_of sc t =
              (if score_of env [''=subpage_upper_right_longitude'', ''=subpage_upper_right_latitude'',
                    ''=subpage_lower_left_latitude'', ''=subpage_lower_left_longitude''] t = 0
               then None
               else Some (score_of env [''=subpage_upper_right_longitude'',
                    ''=subpage_upper_right_latitude'', ''=subpage_lower_left_latitude'',
                    ''=subpage_lower_left_longitude''] t))"
  shows "infer_action (Some mmap) (best_of sc) = Inr (Some mmap)"
proof (cases "best_of sc = []")
  case True
  then show ?thesis by (simp add: infer_action_def)
next
  case False
  let ?keys = "[''=subpage_upper_right_longitude'', ''=subpage_upper_right_latitude'',
                ''=subpage_lower_left_latitude'', ''=subpage_lower_left_longitude'']"
  let ?t = "snd (hd (best_of sc))"
  from False have "hd (best_of sc) \<in> set (best_of sc)" by simp
  then have "(fst (hd (best_of sc)), ?t) \<in> set (best_of sc)" by simp
  then have "fst (hd (best_of sc)) = score_of env ?keys ?t \<and> fst (hd (best_of sc)) \<noteq> 0"
    unfolding best_of_mem [OF dist m] .
  then have "score_of env ?keys ?t \<noteq> 0" by simp
  then obtain k where k: "k \<in> set ?keys" and mk: "MAGICS_KEYS env (param_name k) = [?t]"
    unfolding score_of_def by (auto simp only: length_0_conv filter_empty_conv)
  from k have "param_name k \<in> set extent_params" by (rule extent_keys_names)
  with tb mk have "[?t] = [''mmap'']"
    unfolding extents_of_mmap_def by (metis length_Cons list.size(3) One_nat_def)
  then have "?t = ''mmap''" by simp
  then have "globals_lookup ?t = Some mmap" by (simp add: globals_lookup_def)
  with infer_action_nonempty [OF False, of "Some mmap"] show ?thesis by simp
qed


lemma extent_patch_applied:
  assumes ob: "deref w pa = Some obj" and cl: "cls obj = mmap" and tb: "extents_of_mmap env"
  shows "\<exists>w' kw'.
           apply' env w
             (VDict [(''=subpage_upper_right_longitude'', VFloat (east bbox)),
                     (''=subpage_upper_right_latitude'', VFloat (north bbox)),
                     (''=subpage_lower_left_latitude'', VFloat (south bbox)),
                     (''=subpage_lower_left_longitude'', VFloat (west bbox))])
             None (Some mmap) (VBool True) (ActionTarget pa) = Inr (w', Some pa) \<and>
           objects w' = (objects w)[pa := obj\<lparr>kwargs := kw'\<rparr>] \<and>
           map_of kw' = fold apply_operation (extent_operations bbox) (map_of (kwargs obj))"
proof -
  let ?d = "[(''=subpage_upper_right_longitude'', VFloat (east bbox)),
             (''=subpage_upper_right_latitude'', VFloat (north bbox)),
             (''=subpage_lower_left_latitude'', VFloat (south bbox)),
             (''=subpage_lower_left_longitude'', VFloat (west bbox))]"
  let ?keys = "[''=subpage_upper_right_longitude'', ''=subpage_upper_right_latitude'',
                ''=subpage_lower_left_latitude'', ''=subpage_lower_left_longitude'']"
  have keys: "map fst ?d = ?keys" by simp
  have fl: "flat_dict ?d" by (simp add: flat_dict_def)
  have ne: "\<forall>k \<in> set ?keys. k \<noteq> []" by simp
  have ne': "\<forall>k \<in> fst ` set ?d. k \<noteq> []" by simp
  have "distinct (map fst ([] :: (string \<times> nat) list))" by simp
  from score_keys_scores [OF ne this, of env 0]
  have "\<exists>sc. score_keys env ?keys ([], 0) = Inr (sc, special_of ?keys) \<and>
             distinct (map fst sc) \<and>
             (\<forall>t. map_of sc t = (if score_of env ?keys t = 0 then None
                                 else Some (score_of env ?keys t)))"
    by simp
  then obtain sc where
    r: "score_keys env ?keys ([], 0) = Inr (sc, 4)" and
    dist: "distinct (map fst sc)" and
    m: "\<forall>t. map_of sc t = (if score_of env ?keys t = 0 then None
                            else Some (score_of env ?keys t))"
    unfolding extent_keys_special by blast
  have ia: "infer_action (Some mmap) (best_of sc) = Inr (Some mmap)"
    using tb dist m by (rule extent_infer_action)
  define w1 where "w1 = infer_warnings w ?keys (best_of sc)"
  have d1: "deref w1 pa = Some obj" by (simp add: w1_def deref_infer_warnings ob)
  from update_kwargs_operations [OF ne', of "kwargs obj"] obtain kw' where
    uk: "update_kwargs (kwargs obj) ?d = Inr kw'" and
    mk: "map_of kw' = fold apply_operation (operations_of ?d) (map_of (kwargs obj))"
    by blast
  have ops: "operations_of ?d = extent_operations bbox"
    by (simp add: extent_operations_def)
  have tu: "target_update w1 (ActionTarget pa) (Some mmap) ?d =
              Inr (w1\<lparr>objects := (objects w1)[pa := obj\<lparr>kwargs := kw'\<rparr>]\<rparr>, Some pa)"
    by (simp add: target_update_def Action_update_def d1 cl uk del: update_kwargs.simps)
  have r': "score_keys env (map fst ?d) ([], 0) = Inr (sc, 4)"
    unfolding keys by (rule r)
  have "apply' env w (VDict ?d) None (Some mmap) (VBool True) (ActionTarget pa) =
          apply_flat env w ?d (Some mmap) (ActionTarget pa)"
    using fl by (rule apply'_flat)
  also have "\<dots> = Inr (w1\<lparr>objects := (objects w1)[pa := obj\<lparr>kwargs := kw'\<rparr>]\<rparr>, Some pa)"
    unfolding apply_flat_scored [OF r'] keys ia
    using tu by (simp add: w1_def)
  finally have res: "apply' env w (VDict ?d) None (Some mmap) (VBool True) (ActionTarget pa) =
          Inr (w1\<lparr>objects := (objects w1)[pa := obj\<lparr>kwargs := kw'\<rparr>]\<rparr>, Some pa)" .
  have ow: "objects (w1\<lparr>objects := (objects w1)[pa := obj\<lparr>kwargs := kw'\<rparr>]\<rparr>) =
              (objects w)[pa := obj\<lparr>kwargs := kw'\<rparr>]"
    by (simp add: w1_def objects_infer_warnings)
  from res ow mk ops show ?thesis by (metis (no_types, lifting))
qed

text \<open>
  C1, amended. When a bounding box was accumulated, \<^verbatim>\<open>show\<close> expands it by the
  \<^verbatim>\<open>margins\<close> option and patches the four extent parameters of the active projection
  with set-if-absent (\<^verbatim>\<open>=\<close>-prefixed) operations: the projection stays the same object,
  an extent parameter it does not have is set from the expanded box, and every parameter
  it already has keeps its value.
\<close>

theorem show_bounding_box_fills_absent:
  assumes bb: "D_bounding_box self = Some bb"
    and mg: "add_margins env bb (option_call (D_options self) ''margins'' (VInt 0)) = Inr bbox"
    and pr: "D_projection self = Some pa"
    and ob: "deref w pa = Some obj"
    and cl: "cls obj = mmap"
    and tb: "extents_of_mmap env"
  shows "\<exists>w' kw'.
           show_bounding_box env w self = Inr (w', self) \<and>
           objects w' = (objects w)[pa := obj\<lparr>kwargs := kw'\<rparr>] \<and>
           map_of kw' = fold apply_operation (extent_operations bbox) (map_of (kwargs obj)) \<and>
           (\<forall>k v. map_of (kwargs obj) k = Some v \<longrightarrow> map_of kw' k = Some v)"
proof -
  from extent_patch_applied [OF ob cl tb, of bbox] obtain w' kw' where
    ap: "apply' env w
             (VDict [(''=subpage_upper_right_longitude'', VFloat (east bbox)),
                     (''=subpage_upper_right_latitude'', VFloat (north bbox)),
                     (''=subpage_lower_left_latitude'', VFloat (south bbox)),
                     (''=subpage_lower_left_longitude'', VFloat (west bbox))])
             None (Some mmap) (VBool True) (ActionTarget pa) = Inr (w', Some pa)" and
    ow: "objects w' = (objects w)[pa := obj\<lparr>kwargs := kw'\<rparr>]" and
    mk: "map_of kw' = fold apply_operation (extent_operations bbox) (map_of (kwargs obj))"
    by blast
  from pr have same: "self\<lparr>D_projection := Some pa\<rparr> = self" by simp
  have sb: "show_bounding_box env w self = Inr (w', self)"
    by (simp add: show_bounding_box_def bb mg pr target_of_def ap same del: apply'.simps)
  have keep: "\<forall>k v. map_of (kwargs obj) k = Some v \<longrightarrow> map_of kw' k = Some v"
    unfolding mk using extent_operations_keep by blast
  from sb ow mk keep show ?thesis by blast
qed


theorem show_bounding_box_fills_absent_witness:
  "D_bounding_box partial_driver = Some \<lparr>north = 20, west = - 10, south = - 20, east = 10\<rparr> \<and>
   add_margins example_env \<lparr>north = 20, west = - 10, south = - 20, east = 10\<rparr>
     (option_call (D_options partial_driver) ''margins'' (VInt 0)) =
     Inr \<lparr>north = 25, west = - 15, south = - 25, east = 15\<rparr> \<and>
   D_projection partial_driver = Some 1 \<and>
   deref partial_world 1 =
     Some \<lparr>cls = mmap, kwargs = [(''subpage_map_projection'', VStr ''cylindrical''),
                                 (''subpage_upper_right_longitude'', VFloat 50)]\<rparr> \<and>
   extents_of_mmap example_env \<and>
   (\<exists>w' kw'. show_bounding_box example_env partial_world partial_driver = Inr (w', partial_driver) \<and>
      objects w' = (objects partial_world)
        [1 := \<lparr>cls = mmap, kwargs = [(''subpage_map_projection'', VStr ''cylindrical''),
                                    (''subpage_upper_right_longitude'', VFloat 50)]\<rparr>
              \<lparr>kwargs := kw'\<rparr>] \<and>
      map_of kw' ''subpage_map_projection'' = Some (VStr ''cylindrical'') \<and>
      map_of kw' ''subpage_upper_right_longitude'' = Some (VFloat 50) \<and>
      map_of kw' ''subpage_upper_right_latitude'' = Some (VFloat 25) \<and>
      map_of kw' ''subpage_lower_left_latitude'' = Some (VFloat (- 25)) \<and>
      map_of kw' ''subpage_lower_left_longitude'' = Some (VFloat (- 15)))"
proof -
  let ?obj = "\<lparr>cls = mmap, kwargs = [(''subpage_map_projection'', VStr ''cylindrical''),
                                    (''subpage_upper_right_longitude'', VFloat 50)]\<rparr>"
  let ?bb = "\<lparr>north = 20, west = - 10, south = - 20, east = 10 :: rat\<rparr>"
  let ?bbox = "\<lparr>north = 25, west = - 15, south = - 25, east = 15 :: rat\<rparr>"
  have bb: "D_bounding_box partial_driver = Some ?bb"
    by (simp add: partial_driver_def)
  have mg: "add_margins example_env ?bb (option_call (D_options partial_driver) ''margins'' (VInt 0))
              = Inr ?bbox"
    by (simp add: partial_driver_def fresh_driver_def option_call_def get_default_def
        example_env_def example_margins_def)
  have pr: "D_projection partial_driver = Some 1"
    by (simp add: partial_driver_def)
  have ob: "deref partial_world 1 = Some ?obj"
    by (simp add: partial_world_def deref_def initial_world_def)
  have cl: "cls ?obj = mmap" by simp
  have tb: "extents_of_mmap example_env"
    by (simp add: extents_of_mmap_def extent_params_def MAGICS_KEYS_def example_env_def
        example_magics_def)
  from show_bounding_box_fills_absent [OF bb mg pr ob cl tb] obtain w' kw' where
    sb: "show_bounding_box example_env partial_world partial_driver = Inr (w', partial_driver)" and
    ow: "objects w' = (objects partial_world)[1 := ?obj\<lparr>kwargs := kw'\<rparr>]" and
    mk: "map_of kw' = fold apply_operation (extent_operations ?bbox) (map_of (kwargs ?obj))"
    by blast
  from mk have
    "map_of kw' ''subpage_map_projection'' = Some (VStr ''cylindrical'')"
    "map_of kw' ''subpage_upper_right_longitude'' = Some (VFloat 50)"
    "map_of kw' ''subpage_upper_right_latitude'' = Some (VFloat 25)"
    "map_of kw' ''subpage_lower_left_latitude'' = Some (VFloat (- 25))"
    "map_of kw' ''subpage_lower_left_longitude'' = Some (VFloat (- 15))"
    by (simp_all add: extent_operations_def)
  with bb mg pr ob tb sb ow show ?thesis by blast
qed

text \<open>
  The claim as stated lets the accumulated box override the extent of the projection. A
  driver whose projection was given the full-world extent and whose bounding box is
  (20, -10, -20, 10) keeps its projection unchanged.
\<close>

theorem show_bounding_box_counterexample:
  "Driver_init example_env initial_world [] = Inr (started_world, started_driver) \<and>
   projection example_env started_world started_driver (VDict world_projection) =
     Inr (boxed_world, projected_driver) \<and>
   bounding_box example_env projected_driver (VInt 20) (VInt (- 10)) (VInt (- 20)) (VInt 10) =
     Inr boxed_driver \<and>
   D_bounding_box boxed_driver = Some \<lparr>north = 20, west = - 10, south = - 20, east = 10\<rparr> \<and>
   add_margins example_env \<lparr>north = 20, west = - 10, south = - 20, east = 10\<rparr>
     (option_call (D_options boxed_driver) ''margins'' (VInt 0)) =
     Inr \<lparr>north = 20, west = - 10, south = - 20, east = 10\<rparr> \<and>
   D_projection boxed_driver = Some 3 \<and>
   deref boxed_world 3 = Some \<lparr>cls = mmap, kwargs = world_projection\<rparr> \<and>
   map_of world_projection ''subpage_upper_right_longitude'' = Some (VFloat 180) \<and>
   show_bounding_box example_env boxed_world boxed_driver = Inr (boxed_world, boxed_driver)"
  by code_simp

end
